theory Spec2Isabelle
  imports Main "HOL-Library.Word"
begin

section \<open>Element identifiers\<close>

text \<open>
  The two keys under which a wire payload may carry an element identifier: the key of the
  old WebDriver JSON protocol and the key of the W3C specification.
\<close>

definition legacyWebElementIdentifier :: string where
  "legacyWebElementIdentifier = ''ELEMENT''"

definition webElementIdentifier :: string where
  "webElementIdentifier = ''element-6066-11e4-a52e-4f735466cecf''"

text \<open>
  \<^verbatim>\<open>elementIDFromValue\<close> ranges over the slice of the two keys, W3C key first, and returns
  the first value that is present and not empty. A Go \<^verbatim>\<open>map[string]string\<close> is a partial
  function from strings to strings.
\<close>

fun elementIDFromValue_loop :: "string list \<Rightarrow> (string \<rightharpoonup> string) \<Rightarrow> string" where
  "elementIDFromValue_loop [] val = ''''"
| "elementIDFromValue_loop (key # keys) val =
     (case val key of
        Some v \<Rightarrow> if v \<noteq> '''' then v else elementIDFromValue_loop keys val
      | None \<Rightarrow> elementIDFromValue_loop keys val)"

definition elementIDFromValue :: "(string \<rightharpoonup> string) \<Rightarrow> string" where
  "elementIDFromValue val =
     elementIDFromValue_loop [webElementIdentifier, legacyWebElementIdentifier] val"

section \<open>Element types\<close>

text \<open>
  \<^verbatim>\<open>ElementType\<close> is a struct of boolean flags, one per XCTest element type. The fields are
  listed in the order of their declaration.
\<close>

record ElementType =
  Any :: bool
  Other :: bool
  Application :: bool
  Group :: bool
  Window :: bool
  Sheet :: bool
  Drawer :: bool
  Alert :: bool
  Dialog :: bool
  Button :: bool
  RadioButton :: bool
  RadioGroup :: bool
  CheckBox :: bool
  DisclosureTriangle :: bool
  PopUpButton :: bool
  ComboBox :: bool
  MenuButton :: bool
  ToolbarButton :: bool
  Popover :: bool
  Keyboard :: bool
  Key :: bool
  NavigationBar :: bool
  TabBar :: bool
  TabGroup :: bool
  Toolbar :: bool
  StatusBar :: bool
  Table :: bool
  TableRow :: bool
  TableColumn :: bool
  Outline :: bool
  OutlineRow :: bool
  Browser :: bool
  CollectionView :: bool
  Slider :: bool
  PageIndicator :: bool
  ProgressIndicator :: bool
  ActivityIndicator :: bool
  SegmentedControl :: bool
  Picker :: bool
  PickerWheel :: bool
  Switch :: bool
  Toggle :: bool
  Link :: bool
  Image :: bool
  Icon :: bool
  SearchField :: bool
  ScrollView :: bool
  ScrollBar :: bool
  StaticText :: bool
  TextField :: bool
  SecureTextField :: bool
  DatePicker :: bool
  TextView :: bool
  Menu :: bool
  MenuItem :: bool
  MenuBar :: bool
  MenuBarItem :: bool
  Map :: bool
  WebView :: bool
  IncrementArrow :: bool
  DecrementArrow :: bool
  Timeline :: bool
  RatingIndicator :: bool
  ValueIndicator :: bool
  SplitGroup :: bool
  Splitter :: bool
  RelevanceIndicator :: bool
  ColorWell :: bool
  HelpTag :: bool
  Matte :: bool
  DockItem :: bool
  Ruler :: bool
  RulerMarker :: bool
  Grid :: bool
  LevelIndicator :: bool
  Cell :: bool
  LayoutArea :: bool
  LayoutItem :: bool
  Handle :: bool
  Stepper :: bool
  Tab :: bool
  TouchBar :: bool
  StatusItem :: bool

text \<open>
  What reflection shows of an \<^verbatim>\<open>ElementType\<close>: for each field, in the order of declaration,
  its value and its \<^verbatim>\<open>json\<close> tag.
\<close>

definition ElementType_fields :: "ElementType \<Rightarrow> (bool \<times> string) list" where
  "ElementType_fields et = [
     (Any et, ''XCUIElementTypeAny''),
     (Other et, ''XCUIElementTypeOther''),
     (Application et, ''XCUIElementTypeApplication''),
     (Group et, ''XCUIElementTypeGroup''),
     (Window et, ''XCUIElementTypeWindow''),
     (Sheet et, ''XCUIElementTypeSheet''),
     (Drawer et, ''XCUIElementTypeDrawer''),
     (Alert et, ''XCUIElementTypeAlert''),
     (Dialog et, ''XCUIElementTypeDialog''),
     (Button et, ''XCUIElementTypeButton''),
     (RadioButton et, ''XCUIElementTypeRadioButton''),
     (RadioGroup et, ''XCUIElementTypeRadioGroup''),
     (CheckBox et, ''XCUIElementTypeCheckBox''),
     (DisclosureTriangle et, ''XCUIElementTypeDisclosureTriangle''),
     (PopUpButton et, ''XCUIElementTypePopUpButton''),
     (ComboBox et, ''XCUIElementTypeComboBox''),
     (MenuButton et, ''XCUIElementTypeMenuButton''),
     (ToolbarButton et, ''XCUIElementTypeToolbarButton''),
     (Popover et, ''XCUIElementTypePopover''),
     (Keyboard et, ''XCUIElementTypeKeyboard''),
     (Key et, ''XCUIElementTypeKey''),
     (NavigationBar et, ''XCUIElementTypeNavigationBar''),
     (TabBar et, ''XCUIElementTypeTabBar''),
     (TabGroup et, ''XCUIElementTypeTabGroup''),
     (Toolbar et, ''XCUIElementTypeToolbar''),
     (StatusBar et, ''XCUIElementTypeStatusBar''),
     (Table et, ''XCUIElementTypeTable''),
     (TableRow et, ''XCUIElementTypeTableRow''),
     (TableColumn et, ''XCUIElementTypeTableColumn''),
     (Outline et, ''XCUIElementTypeOutline''),
     (OutlineRow et, ''XCUIElementTypeOutlineRow''),
     (Browser et, ''XCUIElementTypeBrowser''),
     (CollectionView et, ''XCUIElementTypeCollectionView''),
     (Slider et, ''XCUIElementTypeSlider''),
     (PageIndicator et, ''XCUIElementTypePageIndicator''),
     (ProgressIndicator et, ''XCUIElementTypeProgressIndicator''),
     (ActivityIndicator et, ''XCUIElementTypeActivityIndicator''),
     (SegmentedControl et, ''XCUIElementTypeSegmentedControl''),
     (Picker et, ''XCUIElementTypePicker''),
     (PickerWheel et, ''XCUIElementTypePickerWheel''),
     (Switch et, ''XCUIElementTypeSwitch''),
     (Toggle et, ''XCUIElementTypeToggle''),
     (Link et, ''XCUIElementTypeLink''),
     (Image et, ''XCUIElementTypeImage''),
     (Icon et, ''XCUIElementTypeIcon''),
     (SearchField et, ''XCUIElementTypeSearchField''),
     (ScrollView et, ''XCUIElementTypeScrollView''),
     (ScrollBar et, ''XCUIElementTypeScrollBar''),
     (StaticText et, ''XCUIElementTypeStaticText''),
     (TextField et, ''XCUIElementTypeTextField''),
     (SecureTextField et, ''XCUIElementTypeSecureTextField''),
     (DatePicker et, ''XCUIElementTypeDatePicker''),
     (TextView et, ''XCUIElementTypeTextView''),
     (Menu et, ''XCUIElementTypeMenu''),
     (MenuItem et, ''XCUIElementTypeMenuItem''),
     (MenuBar et, ''XCUIElementTypeMenuBar''),
     (MenuBarItem et, ''XCUIElementTypeMenuBarItem''),
     (Map et, ''XCUIElementTypeMap''),
     (WebView et, ''XCUIElementTypeWebView''),
     (IncrementArrow et, ''XCUIElementTypeIncrementArrow''),
     (DecrementArrow et, ''XCUIElementTypeDecrementArrow''),
     (Timeline et, ''XCUIElementTypeTimeline''),
     (RatingIndicator et, ''XCUIElementTypeRatingIndicator''),
     (ValueIndicator et, ''XCUIElementTypeValueIndicator''),
     (SplitGroup et, ''XCUIElementTypeSplitGroup''),
     (Splitter et, ''XCUIElementTypeSplitter''),
     (RelevanceIndicator et, ''XCUIElementTypeRelevanceIndicator''),
     (ColorWell et, ''XCUIElementTypeColorWell''),
     (HelpTag et, ''XCUIElementTypeHelpTag''),
     (Matte et, ''XCUIElementTypeMatte''),
     (DockItem et, ''XCUIElementTypeDockItem''),
     (Ruler et, ''XCUIElementTypeRuler''),
     (RulerMarker et, ''XCUIElementTypeRulerMarker''),
     (Grid et, ''XCUIElementTypeGrid''),
     (LevelIndicator et, ''XCUIElementTypeLevelIndicator''),
     (Cell et, ''XCUIElementTypeCell''),
     (LayoutArea et, ''XCUIElementTypeLayoutArea''),
     (LayoutItem et, ''XCUIElementTypeLayoutItem''),
     (Handle et, ''XCUIElementTypeHandle''),
     (Stepper et, ''XCUIElementTypeStepper''),
     (Tab et, ''XCUIElementTypeTab''),
     (TouchBar et, ''XCUIElementTypeTouchBar''),
     (StatusItem et, ''XCUIElementTypeStatusItem'')]"

text \<open>
  \<^verbatim>\<open>ElementType.String\<close>: the loop over the fields returns the tag of the first field that
  holds \<^verbatim>\<open>true\<close>; after the loop the result is \<^verbatim>\<open>"UNKNOWN"\<close>.
\<close>

fun ElementType_String_loop :: "(bool \<times> string) list \<Rightarrow> string" where
  "ElementType_String_loop [] = ''UNKNOWN''"
| "ElementType_String_loop ((b, tag) # rest) =
     (if b then tag else ElementType_String_loop rest)"

definition ElementType_String :: "ElementType \<Rightarrow> string" where
  "ElementType_String et = ElementType_String_loop (ElementType_fields et)"

text \<open>The zero value of the struct: every flag is \<^verbatim>\<open>false\<close>.\<close>

definition ElementType_zero :: ElementType where
  "ElementType_zero = \<lparr>
     Any = False, Other = False, Application = False, Group = False, Window = False,
     Sheet = False, Drawer = False, Alert = False, Dialog = False, Button = False,
     RadioButton = False, RadioGroup = False, CheckBox = False, DisclosureTriangle = False,
     PopUpButton = False, ComboBox = False, MenuButton = False, ToolbarButton = False,
     Popover = False, Keyboard = False, Key = False, NavigationBar = False, TabBar = False,
     TabGroup = False, Toolbar = False, StatusBar = False, Table = False, TableRow = False,
     TableColumn = False, Outline = False, OutlineRow = False, Browser = False,
     CollectionView = False, Slider = False, PageIndicator = False,
     ProgressIndicator = False, ActivityIndicator = False, SegmentedControl = False,
     Picker = False, PickerWheel = False, Switch = False, Toggle = False, Link = False,
     Image = False, Icon = False, SearchField = False, ScrollView = False,
     ScrollBar = False, StaticText = False, TextField = False, SecureTextField = False,
     DatePicker = False, TextView = False, Menu = False, MenuItem = False, MenuBar = False,
     MenuBarItem = False, Map = False, WebView = False, IncrementArrow = False,
     DecrementArrow = False, Timeline = False, RatingIndicator = False,
     ValueIndicator = False, SplitGroup = False, Splitter = False,
     RelevanceIndicator = False, ColorWell = False, HelpTag = False, Matte = False,
     DockItem = False, Ruler = False, RulerMarker = False, Grid = False,
     LevelIndicator = False, Cell = False, LayoutArea = False, LayoutItem = False,
     Handle = False, Stepper = False, Tab = False, TouchBar = False, StatusItem = False\<rparr>"

section \<open>Element attributes\<close>

text \<open>
  \<^verbatim>\<open>ElementAttribute\<close> is a \<^verbatim>\<open>map[string]interface{}\<close>. Its methods only range over it
  and return in the first iteration, and Go leaves the order of a range over a map open;
  the map is therefore given as the list of its entries in the order in which the range
  visits them (the empty list for an empty or nil map). A value is a \<^verbatim>\<open>bool\<close>, a
  \<^verbatim>\<open>string\<close>, or a value of any other type, which is carried as the text that
  \<^verbatim>\<open>fmt.Sprintf("%v", v)\<close> prints for it.
\<close>

datatype attr_value = VBool bool | VString string | VOther string

type_synonym ElementAttribute = "(string \<times> attr_value) list"

definition FormatBool :: "bool \<Rightarrow> string" where
  "FormatBool b = (if b then ''true'' else ''false'')"

fun ElementAttribute_String :: "ElementAttribute \<Rightarrow> string" where
  "ElementAttribute_String [] = ''UNKNOWN''"
| "ElementAttribute_String ((k, v) # rest) =
     (case v of
        VBool b \<Rightarrow> k @ ''='' @ FormatBool b
      | VString s \<Rightarrow> k @ ''='' @ s
      | VOther printed \<Rightarrow> k @ ''='' @ printed)"

section \<open>Selectors\<close>

record BySelector =
  ClassName :: ElementType
  Name :: string
  Id :: string
  AccessibilityId :: string
  LinkText :: ElementAttribute
  PartialLinkText :: ElementAttribute
  Predicate :: string
  ClassChain :: string
  XPath :: string

text \<open>
  What reflection shows of a \<^verbatim>\<open>BySelector\<close>: each field's value as an interface value of
  its dynamic type, with the field's \<^verbatim>\<open>json\<close> tag, in the order of declaration.
\<close>

datatype field_value =
  FElementType ElementType
| FString string
| FElementAttribute ElementAttribute

definition BySelector_fields :: "BySelector \<Rightarrow> (field_value \<times> string) list" where
  "BySelector_fields wl = [
     (FElementType (ClassName wl), ''class name''),
     (FString (Name wl), ''name''),
     (FString (Id wl), ''id''),
     (FString (AccessibilityId wl), ''accessibility id''),
     (FElementAttribute (LinkText wl), ''link text''),
     (FElementAttribute (PartialLinkText wl), ''partial link text''),
     (FString (Predicate wl), ''predicate string''),
     (FString (ClassChain wl), ''class chain''),
     (FString (XPath wl), ''xpath'')]"

text \<open>The type switch of \<^verbatim>\<open>getUsingAndValue\<close>: the text assigned to \<^verbatim>\<open>value\<close>.\<close>

fun field_text :: "field_value \<Rightarrow> string" where
  "field_text (FElementType et) = ElementType_String et"
| "field_text (FString s) = s"
| "field_text (FElementAttribute ea) = ElementAttribute_String ea"

text \<open>
  The loop of \<^verbatim>\<open>getUsingAndValue\<close>. Both results are named, so \<^verbatim>\<open>value\<close> keeps what the
  last iteration assigned to it: the loop carries it, and the plain \<^verbatim>\<open>return\<close> after the
  loop returns it together with the empty \<^verbatim>\<open>using\<close>.
\<close>

fun getUsingAndValue_loop :: "(field_value \<times> string) list \<Rightarrow> string \<Rightarrow> string \<times> string" where
  "getUsingAndValue_loop [] val = ('''', val)"
| "getUsingAndValue_loop ((vi, tag) # rest) val =
     (let val' = field_text vi
      in if val' \<noteq> '''' \<and> val' \<noteq> ''UNKNOWN'' then (tag, val')
         else getUsingAndValue_loop rest val')"

definition getUsingAndValue :: "BySelector \<Rightarrow> string \<times> string" where
  "getUsingAndValue wl = getUsingAndValue_loop (BySelector_fields wl) ''''"

text \<open>The zero value of a selector: no strategy field is set.\<close>

definition BySelector_zero :: BySelector where
  "BySelector_zero = \<lparr>ClassName = ElementType_zero, Name = '''', Id = '''',
     AccessibilityId = '''', LinkText = [], PartialLinkText = [], Predicate = '''',
     ClassChain = '''', XPath = ''''\<rparr>"

section \<open>Raw responses and errors\<close>

text \<open>
  A \<^verbatim>\<open>rawResponse\<close> is the body of a reply, a slice of bytes. All that the client does
  with a body starts with \<^verbatim>\<open>json.Unmarshal\<close> of package \<^verbatim>\<open>encoding/json\<close>, which first
  checks the whole text against the JSON grammar and fails with a syntax error before it
  stores anything. A body is therefore given by what that check finds in it: either the
  bytes are no JSON text, or they are the text of one JSON value. Strings and member names
  are given decoded (escapes resolved), a number by its literal, and the members of an
  object in the order of the text, repeated names included.
\<close>

datatype json =
  JNull
| JBool bool
| JNumber string
| JString string
| JArray "json list"
| JObject "(string \<times> json) list"

datatype rawResponse =
  Malformed string
| Document json

text \<open>
  The error values that the decoding functions and the executor return:
  the two errors of \<^verbatim>\<open>json.Unmarshal\<close>, the error of \<^verbatim>\<open>base64\<close>, an error made by
  \<^verbatim>\<open>fmt.Errorf("%s: %s", ...)\<close> with its text, the error made by
  \<^verbatim>\<open>fmt.Errorf("invalid element returned: %+v", reply)\<close>, the package variable
  \<^verbatim>\<open>errNoSuchElement\<close>, and an error of package \<^verbatim>\<open>net/http\<close> or of reading the body.
\<close>

datatype error =
  SyntaxError
| UnmarshalTypeError
| CorruptInputError
| Errorf string
| InvalidElementReturned
| errNoSuchElement
| TransportError string

section \<open>Decoding with \<^verbatim>\<open>json.Unmarshal\<close>\<close>

text \<open>
  A member of a JSON object goes to the struct field whose name (its \<^verbatim>\<open>json\<close> tag, or the
  name of the field when it has no tag) equals the member's name, or else equals it under
  Unicode simple case folding. For a name of ASCII letters that is: ASCII letters compare
  without case, U+017F (long s) counts as \<^verbatim>\<open>s\<close> and U+212A (Kelvin sign) as \<^verbatim>\<open>k\<close>.
\<close>

definition ascii_upper :: "char \<Rightarrow> char" where
  "ascii_upper c =
     (let n = (of_char c :: nat) in if 97 \<le> n \<and> n \<le> 122 then char_of (n - 32) else c)"

fun foldName :: "string \<Rightarrow> string" where
  "foldName (a # b # c # cs) =
     (if a = CHR 0xE2 \<and> b = CHR 0x84 \<and> c = CHR 0xAA then CHR ''K'' # foldName cs
      else if a = CHR 0xC5 \<and> b = CHR 0xBF then CHR ''S'' # foldName (c # cs)
      else ascii_upper a # foldName (b # c # cs))"
| "foldName [a, b] =
     (if a = CHR 0xC5 \<and> b = CHR 0xBF then [CHR ''S''] else [ascii_upper a, ascii_upper b])"
| "foldName [a] = [ascii_upper a]"
| "foldName [] = []"

definition key_matches :: "string \<Rightarrow> string \<Rightarrow> bool" where
  "key_matches name key \<longleftrightarrow> key = name \<or> foldName key = foldName name"

text \<open>
  Decoding one JSON value into a Go value that already holds \<open>cur\<close>. A JSON \<^verbatim>\<open>null\<close> leaves
  a string or a bool as it is and sets a map or a slice to nil; a JSON value of another
  kind than the Go type takes is an \<^verbatim>\<open>UnmarshalTypeError\<close>. \<^verbatim>\<open>Unmarshal\<close> goes on after
  such an error and returns the first one at the end; every caller here drops the struct
  when the error is not nil, so the model stops at the first error.
\<close>

fun decode_string :: "string \<Rightarrow> json \<Rightarrow> error + string" where
  "decode_string cur JNull = Inr cur"
| "decode_string cur (JString s) = Inr s"
| "decode_string cur _ = Inl UnmarshalTypeError"

fun decode_bool :: "bool \<Rightarrow> json \<Rightarrow> error + bool" where
  "decode_bool cur JNull = Inr cur"
| "decode_bool cur (JBool b) = Inr b"
| "decode_bool cur _ = Inl UnmarshalTypeError"

text \<open>
  Into a \<^verbatim>\<open>map[string]string\<close>: an existing map is kept and each member is stored under
  its name, its value decoded into a new string; a later member replaces an earlier one
  of the same name.
\<close>

fun decode_map_members ::
  "(string \<times> json) list \<Rightarrow> (string \<rightharpoonup> string) \<Rightarrow> error + (string \<rightharpoonup> string)" where
  "decode_map_members [] m = Inr m"
| "decode_map_members ((k, v) # ms) m =
     (case decode_string '''' v of
        Inl e \<Rightarrow> Inl e
      | Inr s \<Rightarrow> decode_map_members ms (m(k \<mapsto> s)))"

fun decode_map :: "(string \<rightharpoonup> string) \<Rightarrow> json \<Rightarrow> error + (string \<rightharpoonup> string)" where
  "decode_map cur JNull = Inr Map.empty"
| "decode_map cur (JObject ms) = decode_map_members ms cur"
| "decode_map cur _ = Inl UnmarshalTypeError"

text \<open>
  A Go slice is a window on an array: \<open>elems\<close> are the elements of the slice, and
  \<open>spare\<close> are the elements of its array behind them that hold what an earlier, longer
  JSON array stored there (the elements of the array after these are zero). The nil slice
  and a new slice have no spare elements.
\<close>

record map_slice =
  elems :: "(string \<rightharpoonup> string) list"
  spare :: "(string \<rightharpoonup> string) list"

definition map_slice_nil :: map_slice where
  "map_slice_nil = \<lparr>elems = [], spare = []\<rparr>"

text \<open>
  Into a \<^verbatim>\<open>[]map[string]string\<close>: element \<open>i\<close> of the JSON array is decoded into element
  \<open>i\<close> of the array of the slice, as far as the slice or its spare elements reach, so that
  a map found there keeps its entries, and into a zero element of a grown array behind
  them. \<open>old\<close> holds the elements of the array from index \<open>i\<close> on. After the last
  element the slice is cut to the number of elements read. A JSON array without elements
  gives a new empty slice, \<^verbatim>\<open>null\<close> the nil slice.
\<close>

fun decode_slice_elems ::
  "json list \<Rightarrow> (string \<rightharpoonup> string) list \<Rightarrow> error + (string \<rightharpoonup> string) list" where
  "decode_slice_elems [] old = Inr []"
| "decode_slice_elems (j # js) [] =
     (case decode_map Map.empty j of
        Inl e \<Rightarrow> Inl e
      | Inr m \<Rightarrow>
          (case decode_slice_elems js [] of
             Inl e \<Rightarrow> Inl e
           | Inr ms \<Rightarrow> Inr (m # ms)))"
| "decode_slice_elems (j # js) (m0 # old) =
     (case decode_map m0 j of
        Inl e \<Rightarrow> Inl e
      | Inr m \<Rightarrow>
          (case decode_slice_elems js old of
             Inl e \<Rightarrow> Inl e
           | Inr ms \<Rightarrow> Inr (m # ms)))"

fun decode_slice :: "map_slice \<Rightarrow> json \<Rightarrow> error + map_slice" where
  "decode_slice cur JNull = Inr map_slice_nil"
| "decode_slice cur (JArray js) =
     (if js = [] then Inr \<lparr>elems = [], spare = []\<rparr>
      else
        (case decode_slice_elems js (elems cur @ spare cur) of
           Inl e \<Rightarrow> Inl e
         | Inr ms \<Rightarrow> Inr \<lparr>elems = ms, spare = drop (length js) (elems cur @ spare cur)\<rparr>))"
| "decode_slice cur _ = Inl UnmarshalTypeError"

text \<open>
  The struct inside the reply of \<^verbatim>\<open>checkErr\<close>, with the fields tagged \<^verbatim>\<open>error\<close>,
  \<^verbatim>\<open>message\<close> and \<^verbatim>\<open>traceback\<close>. Members of other names are skipped.
\<close>

record errValue =
  Err :: string
  Message :: string
  Traceback :: string

definition errValue_zero :: errValue where
  "errValue_zero = \<lparr>Err = '''', Message = '''', Traceback = ''''\<rparr>"

fun decode_errValue_members :: "(string \<times> json) list \<Rightarrow> errValue \<Rightarrow> error + errValue" where
  "decode_errValue_members [] cur = Inr cur"
| "decode_errValue_members ((k, v) # ms) cur =
     (if key_matches ''error'' k then
        (case decode_string (Err cur) v of
           Inl e \<Rightarrow> Inl e
         | Inr s \<Rightarrow> decode_errValue_members ms (cur\<lparr>Err := s\<rparr>))
      else if key_matches ''message'' k then
        (case decode_string (Message cur) v of
           Inl e \<Rightarrow> Inl e
         | Inr s \<Rightarrow> decode_errValue_members ms (cur\<lparr>Message := s\<rparr>))
      else if key_matches ''traceback'' k then
        (case decode_string (Traceback cur) v of
           Inl e \<Rightarrow> Inl e
         | Inr s \<Rightarrow> decode_errValue_members ms (cur\<lparr>Traceback := s\<rparr>))
      else decode_errValue_members ms cur)"

fun decode_errValue :: "errValue \<Rightarrow> json \<Rightarrow> error + errValue" where
  "decode_errValue cur JNull = Inr cur"
| "decode_errValue cur (JObject ms) = decode_errValue_members ms cur"
| "decode_errValue cur _ = Inl UnmarshalTypeError"

text \<open>
  Every reply struct of the decoding functions has the one field \<^verbatim>\<open>Value\<close>; \<open>dec\<close> decodes
  a JSON value into the type of that field. A reply without such a member leaves the field
  at its zero value, and that is no error.
\<close>

fun decode_Value_members ::
  "('a \<Rightarrow> json \<Rightarrow> error + 'a) \<Rightarrow> (string \<times> json) list \<Rightarrow> 'a \<Rightarrow> error + 'a" where
  "decode_Value_members dec [] cur = Inr cur"
| "decode_Value_members dec ((k, v) # ms) cur =
     (if key_matches ''Value'' k then
        (case dec cur v of
           Inl e \<Rightarrow> Inl e
         | Inr x \<Rightarrow> decode_Value_members dec ms x)
      else decode_Value_members dec ms cur)"

fun decode_reply :: "('a \<Rightarrow> json \<Rightarrow> error + 'a) \<Rightarrow> 'a \<Rightarrow> json \<Rightarrow> error + 'a" where
  "decode_reply dec cur JNull = Inr cur"
| "decode_reply dec cur (JObject ms) = decode_Value_members dec ms cur"
| "decode_reply dec cur _ = Inl UnmarshalTypeError"

text \<open>
  \<^verbatim>\<open>json.Unmarshal(r, reply)\<close> for a new reply struct whose field \<^verbatim>\<open>Value\<close> holds the zero
  value \<open>zero\<close>: the result is the error, or the field after decoding.
\<close>

fun Unmarshal :: "('a \<Rightarrow> json \<Rightarrow> error + 'a) \<Rightarrow> 'a \<Rightarrow> rawResponse \<Rightarrow> error + 'a" where
  "Unmarshal dec zero (Malformed bs) = Inl SyntaxError"
| "Unmarshal dec zero (Document j) = decode_reply dec zero j"

section \<open>The regular expression of \<^verbatim>\<open>checkErr\<close>\<close>

text \<open>
  Package \<^verbatim>\<open>regexp\<close> returns the match that begins leftmost in the text and, among the
  matches that begin there, the one that a backtracking search finds first. The pattern of
  \<^verbatim>\<open>checkErr\<close> is made of literal characters, the lazy repetition \<^verbatim>\<open>.+?\<close> and one group;
  \<^verbatim>\<open>.\<close> matches every character but the newline. The text is UTF-8 and the literals of
  the pattern are ASCII, so matching byte by byte finds the same spans.
\<close>

datatype re_item = Lit char | AnyPlusLazy | GroupOpen | GroupClose

text \<open>
  \<open>match_here p s whole ing cap\<close> matches the pattern \<open>p\<close> at the start of \<open>s\<close>. \<open>whole\<close> is
  the text matched so far, \<open>cap\<close> the text of the group so far, \<open>ing\<close> tells whether the
  group is open. The result is the text of the match and the text of the group.
\<close>

fun match_here ::
  "re_item list \<Rightarrow> string \<Rightarrow> string \<Rightarrow> bool \<Rightarrow> string \<Rightarrow> (string \<times> string) option" where
  "match_here [] s whole ing cap = Some (whole, cap)"
| "match_here (GroupOpen # p) s whole ing cap = match_here p s whole True []"
| "match_here (GroupClose # p) s whole ing cap = match_here p s whole False cap"
| "match_here (Lit c # p) [] whole ing cap = None"
| "match_here (Lit c # p) (x # s) whole ing cap =
     (if x = c then match_here p s (whole @ [x]) ing (if ing then cap @ [x] else cap)
      else None)"
| "match_here (AnyPlusLazy # p) [] whole ing cap = None"
| "match_here (AnyPlusLazy # p) (x # s) whole ing cap =
     (if x = CHR 0x0A then None
      else
        (case match_here p s (whole @ [x]) ing (if ing then cap @ [x] else cap) of
           Some r \<Rightarrow> Some r
         | None \<Rightarrow>
             match_here (AnyPlusLazy # p) s (whole @ [x]) ing (if ing then cap @ [x] else cap)))"

fun find_leftmost :: "re_item list \<Rightarrow> string \<Rightarrow> (string \<times> string) option" where
  "find_leftmost p [] = match_here p [] [] False []"
| "find_leftmost p (x # s) =
     (case match_here p (x # s) [] False [] of
        Some r \<Rightarrow> Some r
      | None \<Rightarrow> find_leftmost p s)"

definition MatchString :: "re_item list \<Rightarrow> string \<Rightarrow> bool" where
  "MatchString re s \<longleftrightarrow> find_leftmost re s \<noteq> None"

text \<open>
  \<^verbatim>\<open>FindStringSubmatch\<close>: the text of the leftmost match followed by the text of its group,
  or nil when there is no match.
\<close>

definition FindStringSubmatch :: "re_item list \<Rightarrow> string \<Rightarrow> string list" where
  "FindStringSubmatch re s =
     (case find_leftmost re s of None \<Rightarrow> [] | Some (whole, g) \<Rightarrow> [whole, g])"

text \<open>The pattern \<^verbatim>\<open>{.+?=(.+?)}\<close>.\<close>

definition checkErr_re :: "re_item list" where
  "checkErr_re =
     [Lit (CHR ''{''), AnyPlusLazy, Lit (CHR ''=''), GroupOpen, AnyPlusLazy, GroupClose,
      Lit (CHR ''}'')]"

section \<open>Base64\<close>

text \<open>
  \<^verbatim>\<open>base64.StdEncoding\<close>: the alphabet of RFC 4648 with the padding character \<^verbatim>\<open>=\<close>, not
  strict. A byte is a \<open>char\<close>; the shifts and masks of the Go code are written as
  multiplication, division and remainder on the value of the bytes.
\<close>

definition encodeStd :: string where
  "encodeStd = ''ABCDEFGHIJKLMNOPQRSTUVWXYZabcdefghijklmnopqrstuvwxyz0123456789+/''"

text \<open>
  \<^verbatim>\<open>EncodeToString\<close>: three bytes give four characters; one or two bytes that remain give
  two or three characters and padding.
\<close>

fun EncodeToString :: "string \<Rightarrow> string" where
  "EncodeToString (a # b # c # src) =
     (let val = of_char a * 65536 + of_char b * 256 + of_char c :: nat
      in encodeStd ! (val div 262144 mod 64) # encodeStd ! (val div 4096 mod 64) #
         encodeStd ! (val div 64 mod 64) # encodeStd ! (val mod 64) # EncodeToString src)"
| "EncodeToString [a, b] =
     (let val = of_char a * 65536 + of_char b * 256 :: nat
      in [encodeStd ! (val div 262144 mod 64), encodeStd ! (val div 4096 mod 64),
          encodeStd ! (val div 64 mod 64), CHR ''=''])"
| "EncodeToString [a] =
     (let val = of_char a * 65536 :: nat
      in [encodeStd ! (val div 262144 mod 64), encodeStd ! (val div 4096 mod 64),
          CHR ''='', CHR ''=''])"
| "EncodeToString [] = []"

text \<open>
  The decoding table: the position of a character in the alphabet, or none (the entry
  \<^verbatim>\<open>0xff\<close>) for a character outside it.
\<close>

fun index_of :: "char \<Rightarrow> string \<Rightarrow> nat option" where
  "index_of c [] = None"
| "index_of c (x # xs) = (if c = x then Some 0 else map_option Suc (index_of c xs))"

definition decodeMap :: "char \<Rightarrow> nat option" where
  "decodeMap c = index_of c encodeStd"

fun skip_newlines :: "string \<Rightarrow> string" where
  "skip_newlines [] = []"
| "skip_newlines (c # cs) =
     (if c = CHR 0x0A \<or> c = CHR 0x0D then skip_newlines cs else c # cs)"

text \<open>
  \<^verbatim>\<open>DecodeString\<close> reads quantum after quantum; \<open>dbuf\<close> holds the values of the characters
  of the quantum read so far. Newlines and carriage returns are skipped. The input may end
  only between two quanta; a character outside the alphabet that is not padding, padding
  after less than two characters of a quantum, padding that is not complete, and anything
  but newlines after the padding are errors. The bits of a padded quantum that go beyond
  its bytes are not checked.
\<close>

fun DecodeString_loop :: "string \<Rightarrow> nat list \<Rightarrow> error + string" where
  "DecodeString_loop [] dbuf = (if dbuf = [] then Inr [] else Inl CorruptInputError)"
| "DecodeString_loop (c # src) dbuf =
     (case decodeMap c of
        Some out \<Rightarrow>
          (if length dbuf = 3 then
             (let val = dbuf ! 0 * 262144 + dbuf ! 1 * 4096 + dbuf ! 2 * 64 + out
              in case DecodeString_loop src [] of
                   Inl err \<Rightarrow> Inl err
                 | Inr dst \<Rightarrow>
                     Inr (char_of (val div 65536) # char_of (val div 256) # char_of val # dst))
           else DecodeString_loop src (dbuf @ [out]))
      | None \<Rightarrow>
          if c = CHR 0x0A \<or> c = CHR 0x0D then DecodeString_loop src dbuf
          else if c \<noteq> CHR ''='' then Inl CorruptInputError
          else
            (case dbuf of
               [d0, d1] \<Rightarrow>
                 (case skip_newlines src of
                    [] \<Rightarrow> Inl CorruptInputError
                  | p # src' \<Rightarrow>
                      if p \<noteq> CHR ''='' then Inl CorruptInputError
                      else if skip_newlines src' \<noteq> [] then Inl CorruptInputError
                      else Inr [char_of ((d0 * 262144 + d1 * 4096) div 65536)])
             | [d0, d1, d2] \<Rightarrow>
                 if skip_newlines src \<noteq> [] then Inl CorruptInputError
                 else
                   (let val = d0 * 262144 + d1 * 4096 + d2 * 64
                    in Inr [char_of (val div 65536), char_of (val div 256)])
             | _ \<Rightarrow> Inl CorruptInputError))"

definition DecodeString :: "string \<Rightarrow> error + string" where
  "DecodeString s = DecodeString_loop s []"

section \<open>The decoding functions of a raw response\<close>

text \<open>
  \<^verbatim>\<open>checkErr\<close> returns nil (\<open>None\<close>) or an error. The index \<^verbatim>\<open>len(subMatch)-1\<close> is read
  only after \<^verbatim>\<open>MatchString\<close> has succeeded, where \<^verbatim>\<open>subMatch\<close> has its two entries.
\<close>

definition checkErr :: "rawResponse \<Rightarrow> error option" where
  "checkErr r =
     (case Unmarshal decode_errValue errValue_zero r of
        Inl err \<Rightarrow> Some err
      | Inr reply_Value \<Rightarrow>
          if Err reply_Value \<noteq> '''' then
            (let errText = Message reply_Value;
                 errText' =
                   (if MatchString checkErr_re (Message reply_Value) then
                      (let subMatch = FindStringSubmatch checkErr_re (Message reply_Value)
                       in subMatch ! (length subMatch - 1))
                    else errText)
             in Some (Errorf (Err reply_Value @ '': '' @ errText')))
          else None)"

definition valueConvertToString :: "rawResponse \<Rightarrow> error + string" where
  "valueConvertToString r =
     (case Unmarshal decode_string '''' r of
        Inl err \<Rightarrow> Inl err
      | Inr reply_Value \<Rightarrow> Inr reply_Value)"

definition valueConvertToBool :: "rawResponse \<Rightarrow> error + bool" where
  "valueConvertToBool r =
     (case Unmarshal decode_bool False r of
        Inl err \<Rightarrow> Inl err
      | Inr reply_Value \<Rightarrow> Inr reply_Value)"

text \<open>
  \<^verbatim>\<open>valueDecodeAsBase64\<close>; the buffer that it returns holds the decoded bytes.
\<close>

definition valueDecodeAsBase64 :: "rawResponse \<Rightarrow> error + string" where
  "valueDecodeAsBase64 r =
     (case valueConvertToString r of
        Inl err \<Rightarrow> Inl err
      | Inr str \<Rightarrow>
          (case DecodeString str of
             Inl err \<Rightarrow> Inl err
           | Inr decodeString \<Rightarrow> Inr decodeString))"

text \<open>
  \<^verbatim>\<open>valueConvertToElementID\<close>. \<^verbatim>\<open>len(reply.Value) == 0\<close> holds for a map without entries.
\<close>

definition valueConvertToElementID :: "rawResponse \<Rightarrow> error + string" where
  "valueConvertToElementID r =
     (case Unmarshal decode_map Map.empty r of
        Inl err \<Rightarrow> Inl err
      | Inr reply_Value \<Rightarrow>
          if dom reply_Value = {} then Inl errNoSuchElement
          else
            (let id = elementIDFromValue reply_Value
             in if id = '''' then Inl InvalidElementReturned else Inr id))"

text \<open>
  The loop of \<^verbatim>\<open>valueConvertToElementIDs\<close> over the decoded elements: the first element
  without an identifier ends it with the error, otherwise the identifier is stored at the
  element's index.
\<close>

fun valueConvertToElementIDs_loop :: "(string \<rightharpoonup> string) list \<Rightarrow> error + string list" where
  "valueConvertToElementIDs_loop [] = Inr []"
| "valueConvertToElementIDs_loop (elem # rest) =
     (let id = elementIDFromValue elem
      in if id = '''' then Inl InvalidElementReturned
         else
           (case valueConvertToElementIDs_loop rest of
              Inl err \<Rightarrow> Inl err
            | Inr IDs \<Rightarrow> Inr (id # IDs)))"

definition valueConvertToElementIDs :: "rawResponse \<Rightarrow> error + string list" where
  "valueConvertToElementIDs r =
     (case Unmarshal decode_slice map_slice_nil r of
        Inl err \<Rightarrow> Inl err
      | Inr reply_Value \<Rightarrow>
          if length (elems reply_Value) = 0 then Inl errNoSuchElement
          else valueConvertToElementIDs_loop (elems reply_Value))"

section \<open>The transport executor\<close>

text \<open>
  What the outside world does with one request: \<^verbatim>\<open>http.NewRequest\<close> fails, or the
  client's \<^verbatim>\<open>Do\<close> fails, or a response with a status code arrives and reading its body
  fails or gives the body. The lock of the USB client and the debug log do not change
  what is returned.
\<close>

datatype http_outcome =
  NewRequestFails error
| DoFails error
| ReadAllFails nat error
| Replies nat rawResponse

definition StatusOK :: nat where
  "StatusOK = 200"

definition executeHTTP ::
  "(string \<Rightarrow> string \<Rightarrow> string \<Rightarrow> http_outcome) \<Rightarrow> string \<Rightarrow> string \<Rightarrow> string
   \<Rightarrow> error + rawResponse" where
  "executeHTTP transport method rawURL rawBody =
     (case transport method rawURL rawBody of
        NewRequestFails err \<Rightarrow> Inl err
      | DoFails err \<Rightarrow> Inl err
      | ReadAllFails StatusCode err \<Rightarrow> Inl err
      | Replies StatusCode rawResp \<Rightarrow>
          (case checkErr rawResp of
             Some err \<Rightarrow> if StatusCode = StatusOK then Inr rawResp else Inl err
           | None \<Rightarrow> Inr rawResp))"

section \<open>Notions used in the statements\<close>

text \<open>A JSON object all of whose members hold strings, as the members of an element do.\<close>

definition string_members :: "(string \<times> string) list \<Rightarrow> (string \<times> json) list" where
  "string_members kvs = map (\<lambda>(k, s). (k, JString s)) kvs"

text \<open>
  All successive matches of a pattern in a text, none overlapping the one before it, as
  \<^verbatim>\<open>FindAllStringSubmatch\<close> of package \<^verbatim>\<open>regexp\<close> lists them; \<open>skip\<close> counts the
  characters that the match before still covers. \<^verbatim>\<open>checkErr\<close> does not call it: it is
  what "the last match" in the description of \<^verbatim>\<open>checkErr\<close> refers to.
\<close>

fun all_matches_from :: "re_item list \<Rightarrow> string \<Rightarrow> nat \<Rightarrow> (string \<times> string) list" where
  "all_matches_from p [] skip =
     (if skip = 0 then (case match_here p [] [] False [] of Some r \<Rightarrow> [r] | None \<Rightarrow> [])
      else [])"
| "all_matches_from p (x # s) skip =
     (if skip > 0 then all_matches_from p s (skip - 1)
      else
        (case match_here p (x # s) [] False [] of
           Some (whole, g) \<Rightarrow> (whole, g) # all_matches_from p s (length whole - 1)
         | None \<Rightarrow> all_matches_from p s 0))"

definition spec_last_match_group :: "re_item list \<Rightarrow> string \<Rightarrow> string" where
  "spec_last_match_group re s = snd (last (all_matches_from re s 0))"
section \<open>Properties of the identifier resolver\<close>

text \<open>
  C1. For every map: a W3C key with a value that is not empty gives that value, whatever
  the legacy key holds; when the W3C key is absent or holds the empty string and the
  legacy key holds a value that is not empty, that value is returned; when both keys are
  absent or hold the empty string, the result is the empty string.
\<close>

theorem elementIDFromValue_two_key:
  "(\<forall>v. val webElementIdentifier = Some v \<and> v \<noteq> '''' \<longrightarrow> elementIDFromValue val = v)
   \<and> (\<forall>u. (val webElementIdentifier = None \<or> val webElementIdentifier = Some '''')
          \<and> val legacyWebElementIdentifier = Some u \<and> u \<noteq> ''''
          \<longrightarrow> elementIDFromValue val = u)
   \<and> ((val webElementIdentifier = None \<or> val webElementIdentifier = Some '''')
        \<and> (val legacyWebElementIdentifier = None \<or> val legacyWebElementIdentifier = Some '''')
        \<longrightarrow> elementIDFromValue val = '''')"
  by (auto simp: elementIDFromValue_def)

theorem elementIDFromValue_two_key_witness:
  "elementIDFromValue [''ELEMENT'' \<mapsto> ''old'', webElementIdentifier \<mapsto> ''new''] = ''new''
   \<and> elementIDFromValue [''ELEMENT'' \<mapsto> ''old'', webElementIdentifier \<mapsto> ''''] = ''old''
   \<and> elementIDFromValue [''ELEMENT'' \<mapsto> ''old''] = ''old''
   \<and> elementIDFromValue [''other'' \<mapsto> ''x''] = ''''"
  using elementIDFromValue_two_key [of "[''ELEMENT'' \<mapsto> ''old'', webElementIdentifier \<mapsto> ''new'']"]
    elementIDFromValue_two_key [of "[''ELEMENT'' \<mapsto> ''old'', webElementIdentifier \<mapsto> '''']"]
    elementIDFromValue_two_key [of "[''ELEMENT'' \<mapsto> ''old'']"]
    elementIDFromValue_two_key [of "[''other'' \<mapsto> ''x'']"]
  by (simp add: webElementIdentifier_def legacyWebElementIdentifier_def)

section \<open>Properties of the element type\<close>

lemma ElementType_String_loop_first:
  "i < length fs \<Longrightarrow> fst (fs ! i) \<Longrightarrow> \<forall>j<i. \<not> fst (fs ! j)
   \<Longrightarrow> ElementType_String_loop fs = snd (fs ! i)"
proof (induction fs arbitrary: i)
  case Nil
  then show ?case by simp
next
  case step: (Cons p fs)
  obtain b tag where p: "p = (b, tag)" by (cases p)
  show ?case
  proof (cases i)
    case 0
    with step.prems p show ?thesis by simp
  next
    case (Suc k)
    with step.prems have nb: "\<not> b" using p by auto
    have "k < length fs" "fst (fs ! k)" using step.prems Suc by auto
    moreover have "\<forall>j<k. \<not> fst (fs ! j)"
    proof (intro allI impI)
      fix j assume "j < k"
      then have "Suc j < i" using Suc by simp
      with step.prems(3) have "\<not> fst ((p # fs) ! Suc j)" by blast
      then show "\<not> fst (fs ! j)" by simp
    qed
    ultimately have "ElementType_String_loop fs = snd (fs ! k)" by (rule step.IH)
    with nb p Suc show ?thesis by simp
  qed
qed

lemma ElementType_String_loop_none:
  "\<forall>p\<in>set fs. \<not> fst p \<Longrightarrow> ElementType_String_loop fs = ''UNKNOWN''"
  by (induction fs) auto

text \<open>
  C7. For every element type, \<^verbatim>\<open>String\<close> returns the tag of the first field, in the order
  of declaration, that is true, and \<^verbatim>\<open>"UNKNOWN"\<close> when every field is false; with only
  \<^verbatim>\<open>Button\<close> true the result is \<^verbatim>\<open>"XCUIElementTypeButton"\<close>. When several fields are
  true, the first of them in the order of declaration gives the result.
\<close>

theorem ElementType_String_first_true:
  "(\<forall>i < length (ElementType_fields et).
      fst (ElementType_fields et ! i) \<and> (\<forall>j<i. \<not> fst (ElementType_fields et ! j))
      \<longrightarrow> ElementType_String et = snd (ElementType_fields et ! i))
   \<and> ((\<forall>p \<in> set (ElementType_fields et). \<not> fst p) \<longrightarrow> ElementType_String et = ''UNKNOWN'')
   \<and> ElementType_String (ElementType_zero\<lparr>Button := True\<rparr>) = ''XCUIElementTypeButton''"
proof (intro conjI allI impI)
  fix i
  assume "i < length (ElementType_fields et)"
    and "fst (ElementType_fields et ! i) \<and> (\<forall>j<i. \<not> fst (ElementType_fields et ! j))"
  then show "ElementType_String et = snd (ElementType_fields et ! i)"
    unfolding ElementType_String_def by (intro ElementType_String_loop_first) simp_all
next
  assume "\<forall>p \<in> set (ElementType_fields et). \<not> fst p"
  then show "ElementType_String et = ''UNKNOWN''"
    unfolding ElementType_String_def by (rule ElementType_String_loop_none)
next
  show "ElementType_String (ElementType_zero\<lparr>Button := True\<rparr>) = ''XCUIElementTypeButton''"
    by (simp add: ElementType_String_def ElementType_fields_def ElementType_zero_def)
qed

theorem ElementType_String_first_true_witness:
  "ElementType_String (ElementType_zero\<lparr>Button := True, Cell := True\<rparr>) = ''XCUIElementTypeButton''
   \<and> ElementType_String ElementType_zero = ''UNKNOWN''"
proof
  let ?et = "ElementType_zero\<lparr>Button := True, Cell := True\<rparr>"
  have len: "9 < length (ElementType_fields ?et)"
    by (simp add: ElementType_fields_def)
  have at: "ElementType_fields ?et ! 9 = (True, ''XCUIElementTypeButton'')"
    by (simp add: ElementType_fields_def ElementType_zero_def)
  have before: "\<forall>j<9. \<not> fst (ElementType_fields ?et ! j)"
    by (simp add: ElementType_fields_def ElementType_zero_def eval_nat_numeral less_Suc_eq)
  from ElementType_String_first_true [of ?et] len at before
  show "ElementType_String ?et = ''XCUIElementTypeButton''"
    by (metis fst_conv snd_conv)
next
  have "\<forall>p \<in> set (ElementType_fields ElementType_zero). \<not> fst p"
    by (simp add: ElementType_fields_def ElementType_zero_def)
  with ElementType_String_first_true [of ElementType_zero]
  show "ElementType_String ElementType_zero = ''UNKNOWN''" by blast
qed

section \<open>Properties of the selector encoder\<close>

text \<open>
  The first field whose text is neither empty nor \<^verbatim>\<open>"UNKNOWN"\<close> gives both results: its
  tag and its text.
\<close>

lemma getUsingAndValue_loop_first:
  "i < length fs
   \<Longrightarrow> field_text (fst (fs ! i)) \<noteq> '''' \<and> field_text (fst (fs ! i)) \<noteq> ''UNKNOWN''
   \<Longrightarrow> \<forall>j<i. field_text (fst (fs ! j)) = '''' \<or> field_text (fst (fs ! j)) = ''UNKNOWN''
   \<Longrightarrow> getUsingAndValue_loop fs v = (snd (fs ! i), field_text (fst (fs ! i)))"
proof (induction fs arbitrary: i v)
  case Nil
  then show ?case by simp
next
  case step: (Cons p fs)
  obtain vi tag where p: "p = (vi, tag)" by (cases p)
  show ?case
  proof (cases i)
    case 0
    with step.prems p show ?thesis by (simp add: Let_def)
  next
    case (Suc k)
    with step.prems(3)
    have "field_text (fst ((p # fs) ! 0)) = '''' \<or> field_text (fst ((p # fs) ! 0)) = ''UNKNOWN''"
      by blast
    then have na: "field_text vi = '''' \<or> field_text vi = ''UNKNOWN''" using p by simp
    have "k < length fs"
      and "field_text (fst (fs ! k)) \<noteq> '''' \<and> field_text (fst (fs ! k)) \<noteq> ''UNKNOWN''"
      using step.prems Suc by auto
    moreover have "\<forall>j<k. field_text (fst (fs ! j)) = '''' \<or> field_text (fst (fs ! j)) = ''UNKNOWN''"
    proof (intro allI impI)
      fix j assume "j < k"
      then have "Suc j < i" using Suc by simp
      with step.prems(3)
      have "field_text (fst ((p # fs) ! Suc j)) = ''''
            \<or> field_text (fst ((p # fs) ! Suc j)) = ''UNKNOWN''" by blast
      then show "field_text (fst (fs ! j)) = '''' \<or> field_text (fst (fs ! j)) = ''UNKNOWN''"
        by simp
    qed
    ultimately have "getUsingAndValue_loop fs (field_text vi) =
                     (snd (fs ! k), field_text (fst (fs ! k)))"
      by (rule step.IH)
    with na p Suc show ?thesis by (auto simp: Let_def)
  qed
qed

lemma getUsingAndValue_first_active:
  "i < length (BySelector_fields wl)
   \<Longrightarrow> field_text (fst (BySelector_fields wl ! i)) \<noteq> ''''
       \<and> field_text (fst (BySelector_fields wl ! i)) \<noteq> ''UNKNOWN''
   \<Longrightarrow> \<forall>j<i. field_text (fst (BySelector_fields wl ! j)) = ''''
             \<or> field_text (fst (BySelector_fields wl ! j)) = ''UNKNOWN''
   \<Longrightarrow> getUsingAndValue wl =
       (snd (BySelector_fields wl ! i), field_text (fst (BySelector_fields wl ! i)))"
  unfolding getUsingAndValue_def by (rule getUsingAndValue_loop_first)

text \<open>
  Without such a field \<^verbatim>\<open>using\<close> is empty, and \<^verbatim>\<open>value\<close> is what the last iteration
  assigned: the \<^verbatim>\<open>xpath\<close> field.
\<close>

lemma getUsingAndValue_loop_none:
  "\<forall>p\<in>set fs. field_text (fst p) = '''' \<or> field_text (fst p) = ''UNKNOWN''
   \<Longrightarrow> getUsingAndValue_loop fs v = ('''', if fs = [] then v else field_text (fst (last fs)))"
  by (induction fs arbitrary: v) (auto simp: Let_def)

lemma getUsingAndValue_none_active:
  "\<forall>p\<in>set (BySelector_fields wl). field_text (fst p) = '''' \<or> field_text (fst p) = ''UNKNOWN''
   \<Longrightarrow> getUsingAndValue wl = ('''', XPath wl)"
  unfolding getUsingAndValue_def
  by (subst getUsingAndValue_loop_none) (simp_all add: BySelector_fields_def)

text \<open>
  A selector without class name and name, and with an \<^verbatim>\<open>id\<close> that is neither empty nor
  \<^verbatim>\<open>"UNKNOWN"\<close>, is encoded by its \<^verbatim>\<open>id\<close>, whatever the fields after it hold.
\<close>

lemma getUsingAndValue_id:
  "ElementType_String (ClassName wl) = ''UNKNOWN''
   \<Longrightarrow> Name wl = '''' \<or> Name wl = ''UNKNOWN''
   \<Longrightarrow> Id wl \<noteq> '''' \<Longrightarrow> Id wl \<noteq> ''UNKNOWN''
   \<Longrightarrow> getUsingAndValue wl = (''id'', Id wl)"
  by (auto simp: getUsingAndValue_def BySelector_fields_def Let_def)

lemma getUsingAndValue_id_before_xpath:
  "getUsingAndValue (BySelector_zero\<lparr>Id := ''submit'', XPath := ''//XCUIElementTypeButton''\<rparr>)
   = (''id'', ''submit'')"
  by (simp add: getUsingAndValue_def BySelector_fields_def BySelector_zero_def Let_def
      ElementType_String_def ElementType_fields_def ElementType_zero_def)

text \<open>
  C2. The claim says that both results are empty strings when no field is active. A
  selector whose only set field is an \<^verbatim>\<open>xpath\<close> of \<^verbatim>\<open>"UNKNOWN"\<close> has no active field, and
  the code returns the empty \<^verbatim>\<open>using\<close> with the value \<^verbatim>\<open>"UNKNOWN"\<close>: the named result
  keeps the text that the guard has just refused.
\<close>

theorem getUsingAndValue_xpath_UNKNOWN:
  "getUsingAndValue (BySelector_zero\<lparr>XPath := ''UNKNOWN''\<rparr>) = ('''', ''UNKNOWN'')"
  by (simp add: getUsingAndValue_def BySelector_fields_def BySelector_zero_def Let_def
      ElementType_String_def ElementType_fields_def ElementType_zero_def)


section \<open>Facts about decoding\<close>

lemma key_Value_value: "key_matches ''Value'' ''value''"
  by code_simp

lemma key_error_tags:
  "key_matches ''error'' ''error''"
  "\<not> key_matches ''error'' ''message''"
  "key_matches ''message'' ''message''"
  by code_simp+

lemma decode_Value_members_skip:
  "\<forall>(k, v) \<in> set pre. \<not> key_matches ''Value'' k
   \<Longrightarrow> decode_Value_members dec (pre @ ms) cur = decode_Value_members dec ms cur"
  by (induction pre) auto

lemma decode_Value_members_single:
  assumes "\<forall>(k, v) \<in> set pre. \<not> key_matches ''Value'' k"
    and "\<forall>(k, v) \<in> set post. \<not> key_matches ''Value'' k"
  shows "decode_Value_members dec (pre @ (''value'', j) # post) cur = dec cur j"
proof -
  have "decode_Value_members dec post x = Inr x" for x
    using decode_Value_members_skip [OF assms(2), of dec "[]" x] by simp
  then show ?thesis
    by (simp add: decode_Value_members_skip [OF assms(1)] key_Value_value split: sum.splits)
qed


lemma map_upd_add_rev:
  "m(k \<mapsto> s) ++ map_of (rev kvs) = m ++ map_of (rev ((k, s) # kvs))"
  by (rule ext) (simp add: map_add_def split: option.splits)

lemma decode_map_members_strings:
  "decode_map_members (string_members kvs) m = Inr (m ++ map_of (rev kvs))"
proof (induction kvs arbitrary: m)
  case Nil
  then show ?case by (simp add: string_members_def)
next
  case (Cons kv kvs)
  obtain k s where kv: "kv = (k, s)" by (cases kv)
  have "decode_map_members (string_members (kv # kvs)) m =
        decode_map_members (string_members kvs) (m(k \<mapsto> s))"
    by (simp add: string_members_def kv)
  also have "\<dots> = Inr (m(k \<mapsto> s) ++ map_of (rev kvs))"
    by (rule Cons.IH)
  also have "m(k \<mapsto> s) ++ map_of (rev kvs) = m ++ map_of (rev (kv # kvs))"
    unfolding kv by (rule map_upd_add_rev)
  finally show ?case .
qed

lemma dom_map_of_rev_empty: "dom (map_of (rev kvs)) = {} \<longleftrightarrow> kvs = []"
  by (cases kvs) (auto simp: dom_map_of_conv_image_fst)

section \<open>Properties of the error classification\<close>

lemma match_here_lazy_plus:
  assumes rej: "\<And>y s w i cp. y \<noteq> c \<Longrightarrow> match_here q (y # s) w i cp = None"
    and "k \<noteq> []" and "c \<notin> set k" and "CHR 0x0A \<notin> set k"
  shows "match_here (AnyPlusLazy # q) (k @ c # rest) whole ing cap =
         (case match_here q (c # rest) (whole @ k) ing (if ing then cap @ k else cap) of
            Some r \<Rightarrow> Some r
          | None \<Rightarrow> match_here (AnyPlusLazy # q) (c # rest) (whole @ k) ing
                      (if ing then cap @ k else cap))"
  using assms(2-)
proof (induction k arbitrary: whole cap)
  case Nil
  then show ?case by simp
next
  case step: (Cons x k)
  show ?case
  proof (cases k)
    case Nil
    with step.prems show ?thesis by (auto split: option.splits)
  next
    case (Cons y k')
    with step.prems have "y \<noteq> c" by auto
    then have "match_here q (k @ c # rest) w i cp = None" for w i cp
      using Cons rej by simp
    moreover have "match_here (AnyPlusLazy # q) (k @ c # rest) (whole @ [x]) ing
                     (if ing then cap @ [x] else cap) =
         (case match_here q (c # rest) ((whole @ [x]) @ k) ing
                 (if ing then (if ing then cap @ [x] else cap) @ k else (if ing then cap @ [x] else cap)) of
            Some r \<Rightarrow> Some r
          | None \<Rightarrow> match_here (AnyPlusLazy # q) (c # rest) ((whole @ [x]) @ k) ing
                      (if ing then (if ing then cap @ [x] else cap) @ k else (if ing then cap @ [x] else cap)))"
      using step.prems Cons by (intro step.IH) auto
    ultimately show ?thesis using step.prems by (auto split: option.splits)
  qed
qed

lemma match_here_checkErr_re:
  assumes "k \<noteq> []" "CHR ''='' \<notin> set k" "CHR 0x0A \<notin> set k"
    and "v \<noteq> []" "CHR ''}'' \<notin> set v" "CHR 0x0A \<notin> set v"
  shows "match_here checkErr_re (CHR ''{'' # k @ CHR ''='' # v @ CHR ''}'' # post) [] False [] =
         Some (CHR ''{'' # k @ CHR ''='' # v @ [CHR ''}''], v)"
proof -
  have inner: "match_here [AnyPlusLazy, GroupClose, Lit (CHR ''}'')] (v @ CHR ''}'' # post) w True [] =
        Some (w @ v @ [CHR ''}''], v)" for w
    using assms(4-6) by (subst match_here_lazy_plus) auto
  show ?thesis
    unfolding checkErr_re_def using assms(1-3)
    by (simp, subst match_here_lazy_plus) (auto simp: inner)
qed

lemma find_leftmost_skip:
  "c \<notin> set pre \<Longrightarrow> find_leftmost (Lit c # p) (pre @ c # s) =
     (case match_here (Lit c # p) (c # s) [] False [] of
        Some r \<Rightarrow> Some r
      | None \<Rightarrow> find_leftmost (Lit c # p) s)"
  by (induction pre) auto

lemma find_leftmost_checkErr_re:
  assumes "CHR ''{'' \<notin> set pre"
    and "k \<noteq> []" "CHR ''='' \<notin> set k" "CHR 0x0A \<notin> set k"
    and "v \<noteq> []" "CHR ''}'' \<notin> set v" "CHR 0x0A \<notin> set v"
  shows "find_leftmost checkErr_re (pre @ CHR ''{'' # k @ CHR ''='' # v @ CHR ''}'' # post) =
         Some (CHR ''{'' # k @ CHR ''='' # v @ [CHR ''}''], v)"
proof -
  have "find_leftmost checkErr_re (pre @ CHR ''{'' # k @ CHR ''='' # v @ CHR ''}'' # post) =
     (case match_here checkErr_re (CHR ''{'' # k @ CHR ''='' # v @ CHR ''}'' # post) [] False [] of
        Some r \<Rightarrow> Some r
      | None \<Rightarrow> find_leftmost checkErr_re (k @ CHR ''='' # v @ CHR ''}'' # post))"
    using find_leftmost_skip [OF assms(1)] unfolding checkErr_re_def by simp
  then show ?thesis
    by (simp add: match_here_checkErr_re [OF assms(2-)])
qed

text \<open>
  C3, as amended. For every reply whose \<^verbatim>\<open>error\<close> is not empty and whose message the
  pattern matches, the text of the error is the \<^verbatim>\<open>error\<close> field, a colon, a blank and
  the group of the leftmost match. In particular, when the message
  holds, after a prefix without an opening brace, a span \<^verbatim>\<open>{k=v}\<close> in which \<^verbatim>\<open>k\<close> and
  \<^verbatim>\<open>v\<close> are not empty, \<^verbatim>\<open>k\<close> has no equals sign, \<^verbatim>\<open>v\<close> no closing brace and neither
  a newline, the text of the error is the \<^verbatim>\<open>error\<close> field, a colon, a blank and \<^verbatim>\<open>v\<close>:
  the group of the first match, whatever follows the span. For the message
  \<^verbatim>\<open>Original error: {NSLocalizedDescription=Element not found}\<close> that is
  \<^verbatim>\<open>Element not found\<close>.
\<close>

theorem checkErr_first_match:
  assumes "Unmarshal decode_errValue errValue_zero r = Inr reply" and "Err reply \<noteq> ''''"
  shows "(\<forall>whole g. find_leftmost checkErr_re (Message reply) = Some (whole, g)
            \<longrightarrow> checkErr r = Some (Errorf (Err reply @ '': '' @ g)))
       \<and> (\<forall>pre k v post.
            Message reply = pre @ ''{'' @ k @ ''='' @ v @ ''}'' @ post
            \<and> CHR ''{'' \<notin> set pre
            \<and> k \<noteq> [] \<and> CHR ''='' \<notin> set k \<and> CHR 0x0A \<notin> set k
            \<and> v \<noteq> [] \<and> CHR ''}'' \<notin> set v \<and> CHR 0x0A \<notin> set v
            \<longrightarrow> checkErr r = Some (Errorf (Err reply @ '': '' @ v)))
       \<and> (Message reply = ''Original error: {NSLocalizedDescription=Element not found}''
            \<longrightarrow> checkErr r = Some (Errorf (Err reply @ '': Element not found'')))"
proof (intro conjI allI impI)
  fix whole g
  assume "find_leftmost checkErr_re (Message reply) = Some (whole, g)"
  then show "checkErr r = Some (Errorf (Err reply @ '': '' @ g))"
    using assms by (simp add: checkErr_def MatchString_def FindStringSubmatch_def)
next
  fix pre k v post
  assume h: "Message reply = pre @ ''{'' @ k @ ''='' @ v @ ''}'' @ post
            \<and> CHR ''{'' \<notin> set pre
            \<and> k \<noteq> [] \<and> CHR ''='' \<notin> set k \<and> CHR 0x0A \<notin> set k
            \<and> v \<noteq> [] \<and> CHR ''}'' \<notin> set v \<and> CHR 0x0A \<notin> set v"
  then have "find_leftmost checkErr_re (Message reply) =
             Some (CHR ''{'' # k @ CHR ''='' # v @ [CHR ''}''], v)"
    using find_leftmost_checkErr_re [of pre k v post] by simp
  then show "checkErr r = Some (Errorf (Err reply @ '': '' @ v))"
    using assms by (simp add: checkErr_def MatchString_def FindStringSubmatch_def)
next
  assume "Message reply = ''Original error: {NSLocalizedDescription=Element not found}''"
  then have "find_leftmost checkErr_re (Message reply) =
             Some (''{NSLocalizedDescription=Element not found}'', ''Element not found'')"
    using find_leftmost_checkErr_re [of "''Original error: ''" "''NSLocalizedDescription''"
        "''Element not found''" "[]"] by simp
  then show "checkErr r = Some (Errorf (Err reply @ '': Element not found''))"
    using assms by (simp add: checkErr_def MatchString_def FindStringSubmatch_def)
qed

theorem checkErr_first_match_witness:
  "checkErr (Document (JObject [(''value'', JObject [(''error'', JString ''E''),
            (''message'', JString ''x{a=b}{c=d}'')])])) = Some (Errorf ''E: b'')
   \<and> checkErr (Document (JObject [(''value'', JObject [(''error'', JString ''no such element''),
            (''message'', JString ''Original error: {NSLocalizedDescription=Element not found}'')])]))
       = Some (Errorf ''no such element: Element not found'')"
proof
  have "checkErr (Document (JObject [(''value'', JObject [(''error'', JString ''E''),
            (''message'', JString ''x{a=b}{c=d}'')])]))
        = Some (Errorf (Err \<lparr>Err = ''E'', Message = ''x{a=b}{c=d}'', Traceback = ''''\<rparr>
                         @ '': '' @ ''b''))"
    by (rule checkErr_first_match [THEN conjunct2, THEN conjunct1, rule_format,
          of _ _ "''x''" "''a''" "''b''" "''{c=d}''"])
       (simp_all add: key_Value_value key_error_tags errValue_zero_def)
  then show "checkErr (Document (JObject [(''value'', JObject [(''error'', JString ''E''),
            (''message'', JString ''x{a=b}{c=d}'')])])) = Some (Errorf ''E: b'')"
    by simp
next
  have "checkErr (Document (JObject [(''value'', JObject [(''error'', JString ''no such element''),
            (''message'', JString ''Original error: {NSLocalizedDescription=Element not found}'')])]))
        = Some (Errorf (Err \<lparr>Err = ''no such element'',
              Message = ''Original error: {NSLocalizedDescription=Element not found}'',
              Traceback = ''''\<rparr> @ '': Element not found''))"
    by (rule checkErr_first_match [THEN conjunct2, THEN conjunct2, rule_format])
       (simp_all add: key_Value_value key_error_tags errValue_zero_def)
  then show "checkErr (Document (JObject [(''value'', JObject [(''error'', JString ''no such element''),
            (''message'', JString ''Original error: {NSLocalizedDescription=Element not found}'')])]))
       = Some (Errorf ''no such element: Element not found'')"
    by simp
qed

text \<open>
  The claim as it was stated takes the group of the last match. In the message
  \<^verbatim>\<open>x{a=b}{c=d}\<close> the last match is \<^verbatim>\<open>{c=d}\<close> with the group \<^verbatim>\<open>d\<close>, and the code takes
  \<^verbatim>\<open>b\<close>.
\<close>

theorem checkErr_last_match_counterexample:
  "checkErr (Document (JObject [(''value'', JObject [(''error'', JString ''E''),
            (''message'', JString ''x{a=b}{c=d}'')])]))
   \<noteq> Some (Errorf (''E: '' @ spec_last_match_group checkErr_re ''x{a=b}{c=d}''))"
  by (simp add: checkErr_def key_Value_value key_error_tags errValue_zero_def
      MatchString_def FindStringSubmatch_def spec_last_match_group_def checkErr_re_def)

section \<open>Properties of the transport executor\<close>

lemma checkErr_reports:
  assumes "Unmarshal decode_errValue errValue_zero r = Inr reply" and "Err reply \<noteq> ''''"
  shows "\<exists>msg. checkErr r = Some (Errorf msg)"
  using assms by (simp add: checkErr_def Let_def)

text \<open>
  C4. For every response that was received and read, whose body decodes to a reply with
  an \<^verbatim>\<open>error\<close> that is not empty: \<^verbatim>\<open>checkErr\<close> reports an error, and \<^verbatim>\<open>executeHTTP\<close>
  returns the body without error when the status is 200, and that error otherwise.
\<close>

theorem executeHTTP_status_override:
  assumes "transport method rawURL rawBody = Replies StatusCode rawResp"
    and "Unmarshal decode_errValue errValue_zero rawResp = Inr reply"
    and "Err reply \<noteq> ''''"
  shows "\<exists>msg. checkErr rawResp = Some (Errorf msg)
           \<and> executeHTTP transport method rawURL rawBody =
               (if StatusCode = 200 then Inr rawResp else Inl (Errorf msg))"
proof -
  from checkErr_reports [OF assms(2,3)] obtain msg where "checkErr rawResp = Some (Errorf msg)" ..
  with assms(1) show ?thesis
    by (simp add: executeHTTP_def StatusOK_def)
qed

theorem executeHTTP_status_override_witness:
  "executeHTTP
     (\<lambda>m u b. Replies 200 (Document (JObject [(''value'',
         JObject [(''error'', JString ''E''), (''message'', JString ''gone'')])])))
     ''GET'' ''http://localhost:8100/status'' '''' =
   Inr (Document (JObject [(''value'',
         JObject [(''error'', JString ''E''), (''message'', JString ''gone'')])]))
   \<and> executeHTTP
     (\<lambda>m u b. Replies 404 (Document (JObject [(''value'',
         JObject [(''error'', JString ''E''), (''message'', JString ''gone'')])])))
     ''GET'' ''http://localhost:8100/status'' '''' = Inl (Errorf ''E: gone'')"
proof -
  let ?r = "Document (JObject [(''value'',
         JObject [(''error'', JString ''E''), (''message'', JString ''gone'')])])"
  have dec: "Unmarshal decode_errValue errValue_zero ?r =
             Inr \<lparr>Err = ''E'', Message = ''gone'', Traceback = ''''\<rparr>"
    by (simp add: key_Value_value key_error_tags errValue_zero_def)
  have ce: "checkErr ?r = Some (Errorf ''E: gone'')"
    by (simp add: checkErr_def key_Value_value key_error_tags errValue_zero_def
        MatchString_def checkErr_re_def)
  have ne: "Err \<lparr>Err = ''E'', Message = ''gone'', Traceback = ''''\<rparr> \<noteq> ''''" by simp
  from executeHTTP_status_override [of "\<lambda>m u b. Replies 200 ?r" "''GET''"
      "''http://localhost:8100/status''" "''''" 200 ?r, OF refl dec ne]
    executeHTTP_status_override [of "\<lambda>m u b. Replies 404 ?r" "''GET''"
      "''http://localhost:8100/status''" "''''" 404 ?r, OF refl dec ne]
  show ?thesis by (simp add: ce)
qed

text \<open>
  C10. For every response that was received and read, whose body is no JSON text:
  \<^verbatim>\<open>checkErr\<close> fails with the syntax error, and \<^verbatim>\<open>executeHTTP\<close> returns the body without
  error when the status is 200, and the syntax error otherwise.
\<close>

theorem executeHTTP_malformed_body:
  assumes "transport method rawURL rawBody = Replies StatusCode (Malformed bs)"
  shows "checkErr (Malformed bs) = Some SyntaxError
         \<and> executeHTTP transport method rawURL rawBody =
             (if StatusCode = 200 then Inr (Malformed bs) else Inl SyntaxError)"
  using assms by (simp add: executeHTTP_def checkErr_def StatusOK_def)

theorem executeHTTP_malformed_body_witness:
  "executeHTTP (\<lambda>m u b. Replies 200 (Malformed ''<html>''))
     ''GET'' ''http://localhost:8100/status'' '''' = Inr (Malformed ''<html>'')
   \<and> executeHTTP (\<lambda>m u b. Replies 502 (Malformed ''<html>''))
     ''GET'' ''http://localhost:8100/status'' '''' = Inl SyntaxError"
  using executeHTTP_malformed_body [of "\<lambda>m u b. Replies 200 (Malformed ''<html>'')" "''GET''"
      "''http://localhost:8100/status''" "''''" 200 "''<html>''", OF refl]
    executeHTTP_malformed_body [of "\<lambda>m u b. Replies 502 (Malformed ''<html>'')" "''GET''"
      "''http://localhost:8100/status''" "''''" 502 "''<html>''", OF refl]
  by simp

section \<open>Properties of the element decoders\<close>

lemma Unmarshal_value_member:
  assumes "\<forall>(k, v) \<in> set pre. \<not> key_matches ''Value'' k"
    and "\<forall>(k, v) \<in> set post. \<not> key_matches ''Value'' k"
  shows "Unmarshal dec zero (Document (JObject (pre @ (''value'', j) # post))) = dec zero j"
  using decode_Value_members_single [OF assms] by simp

text \<open>
  C5. For every envelope with one \<^verbatim>\<open>value\<close> member that is an object of strings (other
  members, such as \<^verbatim>\<open>sessionId\<close>, may stand before and after it): without entries the
  result is \<^verbatim>\<open>errNoSuchElement\<close>; with entries of which neither the W3C key nor the legacy
  key holds a string that is not empty, the result is the error "invalid element
  returned", which is another error than \<^verbatim>\<open>errNoSuchElement\<close>; otherwise the identifier
  is returned without error.
\<close>

theorem valueConvertToElementID_cases:
  assumes "\<forall>(k, v) \<in> set pre. \<not> key_matches ''Value'' k"
    and "\<forall>(k, v) \<in> set post. \<not> key_matches ''Value'' k"
  shows "valueConvertToElementID
           (Document (JObject (pre @ (''value'', JObject (string_members kvs)) # post))) =
         (if kvs = [] then Inl errNoSuchElement
          else if (map_of (rev kvs) webElementIdentifier = None
                    \<or> map_of (rev kvs) webElementIdentifier = Some '''')
                  \<and> (map_of (rev kvs) legacyWebElementIdentifier = None
                    \<or> map_of (rev kvs) legacyWebElementIdentifier = Some '''')
               then Inl InvalidElementReturned
          else Inr (elementIDFromValue (map_of (rev kvs))))
         \<and> InvalidElementReturned \<noteq> errNoSuchElement"
proof -
  have dec: "Unmarshal decode_map Map.empty
               (Document (JObject (pre @ (''value'', JObject (string_members kvs)) # post))) =
             Inr (map_of (rev kvs))"
    by (simp only: Unmarshal_value_member [OF assms] decode_map.simps
        decode_map_members_strings empty_map_add)
  have res: "elementIDFromValue m = '''' \<longleftrightarrow>
             (m webElementIdentifier = None \<or> m webElementIdentifier = Some '''')
             \<and> (m legacyWebElementIdentifier = None \<or> m legacyWebElementIdentifier = Some '''')"
    for m :: "string \<rightharpoonup> string"
    by (auto simp: elementIDFromValue_def split: option.splits)
  show ?thesis
    unfolding valueConvertToElementID_def dec
    by (simp add: dom_map_of_rev_empty res Let_def)
qed

theorem valueConvertToElementID_cases_witness:
  "valueConvertToElementID (Document (JObject [(''value'', JObject [])])) = Inl errNoSuchElement
   \<and> valueConvertToElementID
       (Document (JObject [(''value'', JObject [(''id'', JString ''7'')]),
                           (''sessionId'', JString ''S'')])) = Inl InvalidElementReturned
   \<and> valueConvertToElementID
       (Document (JObject [(''value'', JObject [(''ELEMENT'', JString ''7'')]),
                           (''sessionId'', JString ''S'')])) = Inr ''7''"
proof -
  have nk: "\<forall>(k, v) \<in> set [(''sessionId'', JString ''S'')]. \<not> key_matches ''Value'' k"
    by code_simp
  have e: "\<forall>(k, v) \<in> set ([] :: (string \<times> json) list). \<not> key_matches ''Value'' k"
    by simp
  from valueConvertToElementID_cases [OF e e, of "[]"]
    valueConvertToElementID_cases [OF e nk, of "[(''id'', ''7'')]"]
    valueConvertToElementID_cases [OF e nk, of "[(''ELEMENT'', ''7'')]"]
  show ?thesis
    by (simp add: string_members_def webElementIdentifier_def legacyWebElementIdentifier_def
        elementIDFromValue_def)
qed

lemma decode_slice_elems_strings:
  "decode_slice_elems (map (\<lambda>kvs. JObject (string_members kvs)) kvss) [] =
   Inr (map (\<lambda>kvs. map_of (rev kvs)) kvss)"
  by (induction kvss) (simp_all add: decode_map_members_strings)

lemma decode_slice_strings:
  "kvss \<noteq> [] \<Longrightarrow>
   decode_slice map_slice_nil (JArray (map (\<lambda>kvs. JObject (string_members kvs)) kvss)) =
   Inr \<lparr>elems = map (\<lambda>kvs. map_of (rev kvs)) kvss, spare = []\<rparr>"
  by (simp add: map_slice_nil_def decode_slice_elems_strings)

lemma valueConvertToElementIDs_loop_eq:
  "valueConvertToElementIDs_loop ms =
     (if \<forall>m \<in> set ms. elementIDFromValue m \<noteq> '''' then Inr (map elementIDFromValue ms)
      else Inl InvalidElementReturned)"
  by (induction ms) (auto simp: Let_def)

text \<open>
  C6. The envelope \<^verbatim>\<open>{"value": []}\<close> gives \<^verbatim>\<open>errNoSuchElement\<close>, neither an error of
  decoding nor an empty list. For every list of objects of strings that is not empty,
  each entry is resolved with the two keys, in order; when an entry resolves to the empty
  string the whole result is the error "invalid element returned".
\<close>

theorem valueConvertToElementIDs_cases:
  assumes "\<forall>(k, v) \<in> set pre. \<not> key_matches ''Value'' k"
    and "\<forall>(k, v) \<in> set post. \<not> key_matches ''Value'' k"
  shows "valueConvertToElementIDs (Document (JObject [(''value'', JArray [])])) =
           Inl errNoSuchElement
         \<and> (kvss \<noteq> [] \<longrightarrow>
              valueConvertToElementIDs
                (Document (JObject (pre @
                   (''value'', JArray (map (\<lambda>kvs. JObject (string_members kvs)) kvss)) # post))) =
              (if \<forall>kvs \<in> set kvss. elementIDFromValue (map_of (rev kvs)) \<noteq> ''''
               then Inr (map (\<lambda>kvs. elementIDFromValue (map_of (rev kvs))) kvss)
               else Inl InvalidElementReturned))"
proof
  show "valueConvertToElementIDs (Document (JObject [(''value'', JArray [])])) =
        Inl errNoSuchElement"
    by (simp add: valueConvertToElementIDs_def key_Value_value)
next
  have dec: "Unmarshal decode_slice map_slice_nil
               (Document (JObject (pre @
                  (''value'', JArray (map (\<lambda>kvs. JObject (string_members kvs)) kvss)) # post))) =
             Inr \<lparr>elems = map (\<lambda>kvs. map_of (rev kvs)) kvss, spare = []\<rparr>"
    if "kvss \<noteq> []"
    by (simp only: Unmarshal_value_member [OF assms] decode_slice_strings [OF that])
  show "kvss \<noteq> [] \<longrightarrow>
        valueConvertToElementIDs
          (Document (JObject (pre @
             (''value'', JArray (map (\<lambda>kvs. JObject (string_members kvs)) kvss)) # post))) =
        (if \<forall>kvs \<in> set kvss. elementIDFromValue (map_of (rev kvs)) \<noteq> ''''
         then Inr (map (\<lambda>kvs. elementIDFromValue (map_of (rev kvs))) kvss)
         else Inl InvalidElementReturned)"
  proof
    assume ne: "kvss \<noteq> []"
    show "valueConvertToElementIDs
          (Document (JObject (pre @
             (''value'', JArray (map (\<lambda>kvs. JObject (string_members kvs)) kvss)) # post))) =
        (if \<forall>kvs \<in> set kvss. elementIDFromValue (map_of (rev kvs)) \<noteq> []
         then Inr (map (\<lambda>kvs. elementIDFromValue (map_of (rev kvs))) kvss)
         else Inl InvalidElementReturned)"
      unfolding valueConvertToElementIDs_def dec [OF ne]
      using ne by (simp add: valueConvertToElementIDs_loop_eq o_def)
  qed
qed

text \<open>
  A reply that repeats the \<^verbatim>\<open>value\<close> member decodes the later array into the elements
  of the earlier one, and a map keeps the entries that the later object does not replace.
\<close>

lemma valueConvertToElementIDs_repeated_value:
  "valueConvertToElementIDs
     (Document (JObject [(''value'', JArray [JObject [(''ELEMENT'', JString ''a'')]]),
                         (''value'', JArray [JObject [(''x'', JString ''y'')]])])) = Inr [''a'']"
  "valueConvertToElementIDs
     (Document (JObject
        [(''value'', JArray [JObject [(''element-6066-11e4-a52e-4f735466cecf'', JString ''a'')]]),
         (''value'', JArray [JObject [(''ELEMENT'', JString ''b'')]])])) = Inr [''a'']"
  "valueConvertToElementIDs
     (Document (JObject
        [(''value'', JArray [JObject [(''ELEMENT'', JString ''a'')],
                             JObject [(''ELEMENT'', JString ''b'')]]),
         (''value'', JArray [JObject [(''ELEMENT'', JString ''c'')]]),
         (''value'', JArray [JObject [(''x'', JString ''y'')], JObject [(''x'', JString ''y'')]])]))
   = Inr [''c'', ''b'']"
  by (simp_all add: valueConvertToElementIDs_def key_Value_value map_slice_nil_def Let_def
      elementIDFromValue_def webElementIdentifier_def legacyWebElementIdentifier_def)

theorem valueConvertToElementIDs_cases_witness:
  "valueConvertToElementIDs (Document (JObject [(''value'', JArray [])])) = Inl errNoSuchElement
   \<and> valueConvertToElementIDs
       (Document (JObject [(''value'',
          JArray [JObject [(''ELEMENT'', JString ''7'')],
                  JObject [(''element-6066-11e4-a52e-4f735466cecf'', JString ''8''),
                           (''ELEMENT'', JString ''9'')]])])) = Inr [''7'', ''8'']
   \<and> valueConvertToElementIDs
       (Document (JObject [(''value'',
          JArray [JObject [(''ELEMENT'', JString ''7'')],
                  JObject [(''ELEMENT'', JString '''')],
                  JObject [(''ELEMENT'', JString ''9'')]])])) = Inl InvalidElementReturned"
proof -
  have e: "\<forall>(k, v) \<in> set ([] :: (string \<times> json) list). \<not> key_matches ''Value'' k"
    by simp
  from valueConvertToElementIDs_cases [OF e e,
      of "[[(''ELEMENT'', ''7'')],
           [(''element-6066-11e4-a52e-4f735466cecf'', ''8''), (''ELEMENT'', ''9'')]]"]
    valueConvertToElementIDs_cases [OF e e,
      of "[[(''ELEMENT'', ''7'')], [(''ELEMENT'', '''')], [(''ELEMENT'', ''9'')]]"]
  show ?thesis
    by (simp add: string_members_def webElementIdentifier_def legacyWebElementIdentifier_def
        elementIDFromValue_def)
qed

section \<open>Properties of the string and bool decoders\<close>

lemma decode_Value_members_string_bad:
  "\<exists>(k, v) \<in> set ms. key_matches ''Value'' k \<and> v \<noteq> JNull \<and> (\<forall>s. v \<noteq> JString s)
   \<Longrightarrow> decode_Value_members decode_string ms cur = Inl UnmarshalTypeError"
proof (induction ms arbitrary: cur)
  case Nil
  then show ?case by simp
next
  case (Cons kv ms)
  obtain k v where kv: "kv = (k, v)" by (cases kv)
  show ?case
  proof (cases "key_matches ''Value'' k \<and> v \<noteq> JNull \<and> (\<forall>s. v \<noteq> JString s)")
    case True
    then show ?thesis unfolding kv by (cases v) simp_all
  next
    case False
    with Cons.prems kv
    have "\<exists>(k, v) \<in> set ms. key_matches ''Value'' k \<and> v \<noteq> JNull \<and> (\<forall>s. v \<noteq> JString s)"
      by auto
    then have "decode_Value_members decode_string ms c = Inl UnmarshalTypeError" for c
      by (rule Cons.IH)
    then show ?thesis unfolding kv by (cases v) simp_all
  qed
qed

lemma decode_Value_members_bool_bad:
  "\<exists>(k, v) \<in> set ms. key_matches ''Value'' k \<and> v \<noteq> JNull \<and> (\<forall>b. v \<noteq> JBool b)
   \<Longrightarrow> decode_Value_members decode_bool ms cur = Inl UnmarshalTypeError"
proof (induction ms arbitrary: cur)
  case Nil
  then show ?case by simp
next
  case (Cons kv ms)
  obtain k v where kv: "kv = (k, v)" by (cases kv)
  show ?case
  proof (cases "key_matches ''Value'' k \<and> v \<noteq> JNull \<and> (\<forall>b. v \<noteq> JBool b)")
    case True
    then show ?thesis unfolding kv by (cases v) auto
  next
    case False
    with Cons.prems kv
    have "\<exists>(k, v) \<in> set ms. key_matches ''Value'' k \<and> v \<noteq> JNull \<and> (\<forall>b. v \<noteq> JBool b)"
      by auto
    then have "decode_Value_members decode_bool ms c = Inl UnmarshalTypeError" for c
      by (rule Cons.IH)
    then show ?thesis unfolding kv by (cases v) simp_all
  qed
qed

lemma decode_Value_members_absent:
  "\<forall>(k, v) \<in> set ms. \<not> key_matches ''Value'' k \<Longrightarrow> decode_Value_members dec ms cur = Inr cur"
  by (induction ms) auto

text \<open>
  C9, as amended. \<^verbatim>\<open>valueConvertToString\<close> and \<^verbatim>\<open>valueConvertToBool\<close> fail with an error
  for every body that is no JSON text, for every body whose JSON value is neither an
  object nor \<^verbatim>\<open>null\<close>, and for every object with a \<^verbatim>\<open>value\<close> member that holds a JSON
  value of another type than the wanted one and other than \<^verbatim>\<open>null\<close>. An object without a
  \<^verbatim>\<open>value\<close> member is decoded without error, to the empty string and to \<^verbatim>\<open>false\<close>.
\<close>

theorem valueConvertTo_decode_errors:
  "valueConvertToString (Malformed bs) = Inl SyntaxError
   \<and> valueConvertToBool (Malformed bs) = Inl SyntaxError
   \<and> (j \<noteq> JNull \<and> (\<forall>ms. j \<noteq> JObject ms) \<longrightarrow>
        valueConvertToString (Document j) = Inl UnmarshalTypeError
        \<and> valueConvertToBool (Document j) = Inl UnmarshalTypeError)
   \<and> ((\<exists>(k, v) \<in> set ms. key_matches ''Value'' k \<and> v \<noteq> JNull \<and> (\<forall>s. v \<noteq> JString s)) \<longrightarrow>
        valueConvertToString (Document (JObject ms)) = Inl UnmarshalTypeError)
   \<and> ((\<exists>(k, v) \<in> set ms. key_matches ''Value'' k \<and> v \<noteq> JNull \<and> (\<forall>b. v \<noteq> JBool b)) \<longrightarrow>
        valueConvertToBool (Document (JObject ms)) = Inl UnmarshalTypeError)
   \<and> ((\<forall>(k, v) \<in> set ms. \<not> key_matches ''Value'' k) \<longrightarrow>
        valueConvertToString (Document (JObject ms)) = Inr ''''
        \<and> valueConvertToBool (Document (JObject ms)) = Inr False)"
proof (intro conjI impI)
  show "valueConvertToString (Malformed bs) = Inl SyntaxError"
    by (simp add: valueConvertToString_def)
  show "valueConvertToBool (Malformed bs) = Inl SyntaxError"
    by (simp add: valueConvertToBool_def)
next
  assume "j \<noteq> JNull \<and> (\<forall>ms. j \<noteq> JObject ms)"
  then show "valueConvertToString (Document j) = Inl UnmarshalTypeError"
    and "valueConvertToBool (Document j) = Inl UnmarshalTypeError"
    by (cases j; simp add: valueConvertToString_def valueConvertToBool_def)+
next
  assume "\<exists>(k, v) \<in> set ms. key_matches ''Value'' k \<and> v \<noteq> JNull \<and> (\<forall>s. v \<noteq> JString s)"
  then show "valueConvertToString (Document (JObject ms)) = Inl UnmarshalTypeError"
    by (simp add: valueConvertToString_def decode_Value_members_string_bad)
next
  assume "\<exists>(k, v) \<in> set ms. key_matches ''Value'' k \<and> v \<noteq> JNull \<and> (\<forall>b. v \<noteq> JBool b)"
  then show "valueConvertToBool (Document (JObject ms)) = Inl UnmarshalTypeError"
    by (simp add: valueConvertToBool_def decode_Value_members_bool_bad)
next
  assume a: "\<forall>(k, v) \<in> set ms. \<not> key_matches ''Value'' k"
  show "valueConvertToString (Document (JObject ms)) = Inr ''''"
    by (simp add: valueConvertToString_def decode_Value_members_absent [OF a])
  show "valueConvertToBool (Document (JObject ms)) = Inr False"
    by (simp add: valueConvertToBool_def decode_Value_members_absent [OF a])
qed

theorem valueConvertTo_decode_errors_witness:
  "valueConvertToString (Document (JArray [])) = Inl UnmarshalTypeError
   \<and> valueConvertToBool (Document (JString ''true'')) = Inl UnmarshalTypeError
   \<and> valueConvertToString (Document (JObject [(''value'', JNumber ''1'')])) = Inl UnmarshalTypeError
   \<and> valueConvertToBool (Document (JObject [(''value'', JString ''true'')])) = Inl UnmarshalTypeError
   \<and> valueConvertToString (Document (JObject [(''sessionId'', JString ''S'')])) = Inr ''''
   \<and> valueConvertToBool (Document (JObject [(''sessionId'', JString ''S'')])) = Inr False"
proof -
  have nk: "\<forall>(k, v) \<in> set [(''sessionId'', JString ''S'')]. \<not> key_matches ''Value'' k"
    by code_simp
  from valueConvertTo_decode_errors [of "[]" "JArray []" "[(''value'', JNumber ''1'')]"]
    valueConvertTo_decode_errors [of "[]" "JString ''true''" "[(''value'', JString ''true'')]"]
    valueConvertTo_decode_errors [of "[]" JNull "[(''sessionId'', JString ''S'')]"]
    nk
  show ?thesis
    by (simp add: key_Value_value)
qed

text \<open>
  The claim as it was stated fails for a body without a \<^verbatim>\<open>value\<close> member: the body
  \<^verbatim>\<open>{}\<close> gives the default values and no error. So do a \<^verbatim>\<open>value\<close> of \<^verbatim>\<open>null\<close> and
  the body \<^verbatim>\<open>null\<close>.
\<close>

theorem valueConvertTo_missing_value_counterexample:
  "valueConvertToString (Document (JObject [])) = Inr []
   \<and> valueConvertToBool (Document (JObject [])) = Inr False
   \<and> valueConvertToString (Document (JObject [(''value'', JNull)])) = Inr []
   \<and> valueConvertToBool (Document (JObject [(''value'', JNull)])) = Inr False
   \<and> valueConvertToString (Document JNull) = Inr []
   \<and> valueConvertToBool (Document JNull) = Inr False"
  by (simp add: valueConvertToString_def valueConvertToBool_def key_Value_value)

section \<open>Properties of the base64 decoder\<close>

lemma decodeMap_encodeStd_all: "list_all (\<lambda>i. decodeMap (encodeStd ! i) = Some i) [0..<64]"
  by code_simp

lemma decodeMap_encodeStd: "i < 64 \<Longrightarrow> decodeMap (encodeStd ! i) = Some i"
  using decodeMap_encodeStd_all by (simp add: list_all_iff)

lemma sextets_val:
  fixes v :: nat
  assumes "v < 16777216"
  shows "(v div 262144 mod 64) * 262144 + (v div 4096 mod 64) * 4096 + (v div 64 mod 64) * 64
         + v mod 64 = v"
proof -
  have e1: "v = (v div 64) * 64 + v mod 64" by simp
  have "v div 4096 = v div 64 div 64" using div_mult2_eq [of v 64 64] by simp
  then have e2: "v div 64 = (v div 4096) * 64 + v div 64 mod 64" by simp
  have "v div 262144 = v div 4096 div 64" using div_mult2_eq [of v 4096 64] by simp
  then have e3: "v div 4096 = (v div 262144) * 64 + v div 4096 mod 64" by simp
  have "v div 262144 < 64" using assms by (simp add: less_mult_imp_div_less)
  then have e4: "v div 262144 mod 64 = v div 262144" by simp
  from e1 e2 e3 e4 show ?thesis by linarith
qed

lemma bytes_val:
  fixes a b c :: nat
  assumes "b < 256" "c < 256"
  shows "(a * 65536 + b * 256 + c) div 65536 = a"
    and "(a * 65536 + b * 256 + c) div 256 = a * 256 + b"
  using assms by simp_all

lemma decodeMap_pad: "decodeMap (CHR ''='') = None"
  by code_simp

lemma DecodeString_loop_quantum:
  assumes "s0 < 64" "s1 < 64" "s2 < 64" "s3 < 64"
  shows "DecodeString_loop
           (encodeStd ! s0 # encodeStd ! s1 # encodeStd ! s2 # encodeStd ! s3 # rest) [] =
         (case DecodeString_loop rest [] of
            Inl err \<Rightarrow> Inl err
          | Inr dst \<Rightarrow>
              Inr (char_of ((s0 * 262144 + s1 * 4096 + s2 * 64 + s3) div 65536) #
                   char_of ((s0 * 262144 + s1 * 4096 + s2 * 64 + s3) div 256) #
                   char_of (s0 * 262144 + s1 * 4096 + s2 * 64 + s3) # dst))"
  using assms by (simp add: decodeMap_encodeStd Let_def)

lemma DecodeString_loop_pad1:
  assumes "s0 < 64" "s1 < 64" "s2 < 64"
  shows "DecodeString_loop [encodeStd ! s0, encodeStd ! s1, encodeStd ! s2, CHR ''=''] [] =
         Inr [char_of ((s0 * 262144 + s1 * 4096 + s2 * 64) div 65536),
              char_of ((s0 * 262144 + s1 * 4096 + s2 * 64) div 256)]"
  using assms by (simp add: decodeMap_encodeStd decodeMap_pad Let_def)

lemma DecodeString_loop_pad2:
  assumes "s0 < 64" "s1 < 64"
  shows "DecodeString_loop [encodeStd ! s0, encodeStd ! s1, CHR ''='', CHR ''=''] [] =
         Inr [char_of ((s0 * 262144 + s1 * 4096) div 65536)]"
  using assms by (simp add: decodeMap_encodeStd decodeMap_pad)

lemma val_bound:
  "of_char a * 65536 + of_char b * 256 + (of_char c :: nat) < 16777216"
proof -
  have "of_char a < (256 :: nat)" "of_char b < (256 :: nat)" "of_char c < (256 :: nat)"
    by simp_all
  then show ?thesis by linarith
qed

lemma char_of_bytes:
  fixes A B C :: nat
  shows "char_of (A * 256 + B) = char_of B"
    and "char_of (A * 65536 + B * 256 + C) = char_of C"
proof -
  show "char_of (A * 256 + B) = char_of B"
    by (simp only: char_of_quasi_inj) simp
  have eq: "A * 65536 + B * 256 + C = (A * 256 + B) * 256 + C" by simp
  have "((A * 256 + B) * 256 + C) mod 256 = C mod 256" by (rule mod_mult_self3)
  with eq have "(A * 65536 + B * 256 + C) mod 256 = C mod 256" by (simp only:)
  then show "char_of (A * 65536 + B * 256 + C) = char_of C"
    by (simp only: char_of_quasi_inj)
qed

lemma sextets_val_pad1:
  fixes v :: nat
  assumes "v < 16777216" and "v mod 64 = 0"
  shows "(v div 262144 mod 64) * 262144 + (v div 4096 mod 64) * 4096 + (v div 64 mod 64) * 64
         = v"
  using sextets_val [OF assms(1)] assms(2) by linarith

lemma sextets_val_pad2:
  fixes v :: nat
  assumes "v < 16777216" and "v mod 4096 = 0"
  shows "(v div 262144 mod 64) * 262144 + (v div 4096 mod 64) * 4096 = v"
proof -
  have "v mod 4096 = 64 * (v div 64 mod 64) + v mod 64"
    using mod_mult2_eq [of v 64 64] by simp
  with assms(2) have "64 * (v div 64 mod 64) + v mod 64 = 0" by simp
  then have "v div 64 mod 64 = 0" and "v mod 64 = 0" by simp_all
  with sextets_val [OF assms(1)] show ?thesis by linarith
qed

lemma DecodeString_loop_EncodeToString:
  "DecodeString_loop (EncodeToString b) [] = Inr b"
proof (induction b rule: EncodeToString.induct)
  case (1 a b c src)
  define v :: nat where "v = of_char a * 65536 + of_char b * 256 + of_char c"
  have bound: "v < 16777216" unfolding v_def by (rule val_bound)
  have enc: "EncodeToString (a # b # c # src) =
             encodeStd ! (v div 262144 mod 64) # encodeStd ! (v div 4096 mod 64) #
             encodeStd ! (v div 64 mod 64) # encodeStd ! (v mod 64) # EncodeToString src"
    by (simp add: v_def Let_def)
  have "DecodeString_loop (EncodeToString (a # b # c # src)) [] =
        (case DecodeString_loop (EncodeToString src) [] of
            Inl err \<Rightarrow> Inl err
          | Inr dst \<Rightarrow>
              Inr (char_of (((v div 262144 mod 64) * 262144 + (v div 4096 mod 64) * 4096
                     + (v div 64 mod 64) * 64 + v mod 64) div 65536) #
                   char_of (((v div 262144 mod 64) * 262144 + (v div 4096 mod 64) * 4096
                     + (v div 64 mod 64) * 64 + v mod 64) div 256) #
                   char_of ((v div 262144 mod 64) * 262144 + (v div 4096 mod 64) * 4096
                     + (v div 64 mod 64) * 64 + v mod 64) # dst))"
    unfolding enc by (rule DecodeString_loop_quantum) simp_all
  also have "\<dots> = Inr (char_of (v div 65536) # char_of (v div 256) # char_of v # src)"
    by (simp only: sextets_val [OF bound] "1.IH" sum.case)
  also have "char_of (v div 65536) = a"
  proof -
    have "v div 65536 = of_char a" unfolding v_def by (rule bytes_val(1)) simp_all
    then show ?thesis by simp
  qed
  also have "char_of (v div 256) = b"
  proof -
    have "v div 256 = of_char a * 256 + of_char b"
      unfolding v_def by (rule bytes_val(2)) simp_all
    then have "char_of (v div 256) = char_of (of_char b :: nat)"
      by (simp only: char_of_bytes(1))
    then show ?thesis by simp
  qed
  also have "char_of v = c"
  proof -
    have "char_of v = char_of (of_char c :: nat)"
      unfolding v_def by (rule char_of_bytes(2))
    then show ?thesis by simp
  qed
  finally show ?case .
next
  case (2 a b)
  define v :: nat where "v = of_char a * 65536 + of_char b * 256"
  have bound: "v < 16777216"
    using val_bound [of a b "char_of (0 :: nat)"] by (simp add: v_def)
  have "v = (of_char a * 1024 + of_char b * 4) * 64" by (simp add: v_def)
  then have m: "v mod 64 = 0" by (simp only: mod_mult_self2_is_0)
  have enc: "EncodeToString [a, b] =
             [encodeStd ! (v div 262144 mod 64), encodeStd ! (v div 4096 mod 64),
              encodeStd ! (v div 64 mod 64), CHR ''='']"
    by (simp add: v_def Let_def)
  have "DecodeString_loop (EncodeToString [a, b]) [] =
        Inr [char_of (((v div 262144 mod 64) * 262144 + (v div 4096 mod 64) * 4096
                     + (v div 64 mod 64) * 64) div 65536),
             char_of (((v div 262144 mod 64) * 262144 + (v div 4096 mod 64) * 4096
                     + (v div 64 mod 64) * 64) div 256)]"
    unfolding enc by (rule DecodeString_loop_pad1) simp_all
  also have "\<dots> = Inr [char_of (v div 65536), char_of (v div 256)]"
    by (simp only: sextets_val_pad1 [OF bound m])
  also have "char_of (v div 65536) = a"
    using bytes_val(1) [of "of_char b" 0 "of_char a"] by (simp add: v_def)
  also have "char_of (v div 256) = b"
  proof -
    have "v div 256 = of_char a * 256 + of_char b"
      using bytes_val(2) [of "of_char b" 0 "of_char a"] by (simp add: v_def)
    then have "char_of (v div 256) = char_of (of_char b :: nat)"
      by (simp only: char_of_bytes(1))
    then show ?thesis by simp
  qed
  finally show ?case .
next
  case (3 a)
  define v :: nat where "v = of_char a * 65536"
  have bound: "v < 16777216"
    using val_bound [of a "char_of (0 :: nat)" "char_of (0 :: nat)"] by (simp add: v_def)
  have "v = (of_char a * 16) * 4096" by (simp add: v_def)
  then have m: "v mod 4096 = 0" by (simp only: mod_mult_self2_is_0)
  have enc: "EncodeToString [a] =
             [encodeStd ! (v div 262144 mod 64), encodeStd ! (v div 4096 mod 64),
              CHR ''='', CHR ''='']"
    by (simp add: v_def Let_def)
  have "DecodeString_loop (EncodeToString [a]) [] =
        Inr [char_of (((v div 262144 mod 64) * 262144 + (v div 4096 mod 64) * 4096) div 65536)]"
    unfolding enc by (rule DecodeString_loop_pad2) simp_all
  also have "\<dots> = Inr [char_of (v div 65536)]"
    by (simp only: sextets_val_pad2 [OF bound m])
  also have "char_of (v div 65536) = a"
    by (simp add: v_def)
  finally show ?case .
next
  case 4
  show ?case by simp
qed

text \<open>
  C8. For every sequence of bytes \<open>b\<close>, the empty one included, the envelope whose
  \<^verbatim>\<open>value\<close> is the standard base64 text of \<open>b\<close> is decoded by \<^verbatim>\<open>valueDecodeAsBase64\<close>
  without error, and the bytes returned are \<open>b\<close>.
\<close>

theorem valueDecodeAsBase64_roundtrip:
  "valueDecodeAsBase64 (Document (JObject [(''value'', JString (EncodeToString b))])) = Inr b"
  by (simp add: valueDecodeAsBase64_def valueConvertToString_def key_Value_value
      DecodeString_def DecodeString_loop_EncodeToString)

theorem valueDecodeAsBase64_roundtrip_witness:
  "valueDecodeAsBase64 (Document (JObject [(''value'', JString '''')])) = Inr ''''
   \<and> valueDecodeAsBase64 (Document (JObject [(''value'', JString ''aA=='')])) = Inr ''h''
   \<and> valueDecodeAsBase64 (Document (JObject [(''value'', JString ''aGVsbG8='')])) = Inr ''hello''"
proof -
  have e: "EncodeToString [] = []" "EncodeToString ''h'' = ''aA==''"
    "EncodeToString ''hello'' = ''aGVsbG8=''"
    by (simp_all add: encodeStd_def)
  show ?thesis
    using valueDecodeAsBase64_roundtrip [of "[]"] valueDecodeAsBase64_roundtrip [of "''h''"]
      valueDecodeAsBase64_roundtrip [of "''hello''"]
    unfolding e by blast
qed


end
